theory Spec2Isabelle
  imports Complex_Main "HOL-Library.Multiset"
begin

section \<open>Court booking: the price engine and the admission controller\<close>

text \<open>
  A shallow embedding of \<^verbatim>\<open>backend/pricing.py\<close> (\<^verbatim>\<open>rule_applies\<close>,
  \<^verbatim>\<open>compute_price\<close>) and of the booking and cancellation handlers of
  \<^verbatim>\<open>backend/main.py\<close> (\<^verbatim>\<open>create_booking\<close>, \<^verbatim>\<open>cancel_booking\<close>).

  Conventions of the model:
  \<^item> a naive \<^verbatim>\<open>datetime\<close> is the number of seconds since Monday 0001-01-01 00:00:00
    (day ordinal 1 of the proleptic calendar is a Monday); microseconds are not modelled;
  \<^item> Python floats are idealised as real numbers;
  \<^item> JSON values are taken well typed: an equipment line has a string \<^verbatim>\<open>sku\<close>, an integer
    \<^verbatim>\<open>quantity\<close> and numeric fees, a rule has string tags, a numeric modifier value and
    well-formed times;
  \<^item> a table is the list of its rows in storage order; a query without
    \<^verbatim>\<open>order_by\<close> returns rows in that order; \<^verbatim>\<open>NULL\<close> columns are not modelled
    except where the code tests for them; columns no handler reads are left out;
  \<^item> \<^verbatim>\<open>backend/db.py\<close> is not among the sources; the tests confirm a booking with the
    SKU \<^verbatim>\<open>racket\<close>, so the engine accepts text in the integer column
    \<^verbatim>\<open>resource_id\<close>, as SQLite does; the column is modelled with SQLite's type affinity;
  \<^item> an \<^verbatim>\<open>HTTPException\<close> is a value of the type \<open>http_error\<close>; each handler
    returns its outcome together with the database as committed when it returns;
  \<^item> one handler runs at a time: the advisory lock statement of \<^verbatim>\<open>create_booking\<close>,
    whose failure the code ignores, changes nothing in a single run and is left out.
\<close>

subsection \<open>Dates, times and strings\<close>

type_synonym datetime = int

definition total_seconds :: "datetime \<Rightarrow> datetime \<Rightarrow> int" where
  \<comment> \<open>\<^verbatim>\<open>(end_ts - start_ts).total_seconds()\<close>\<close>
  "total_seconds end_ts start_ts = end_ts - start_ts"

definition weekday :: "datetime \<Rightarrow> nat" where
  \<comment> \<open>0 is Monday, 6 is Sunday\<close>
  "weekday ts = nat ((ts div 86400) mod 7)"

definition time_of :: "datetime \<Rightarrow> nat" where
  \<comment> \<open>\<^verbatim>\<open>ts.time()\<close>, in seconds since midnight\<close>
  "time_of ts = nat (ts mod 86400)"

definition lower_char :: "char \<Rightarrow> char" where
  "lower_char c =
     (case map_of (zip ''ABCDEFGHIJKLMNOPQRSTUVWXYZ'' ''abcdefghijklmnopqrstuvwxyz'') c of
        None \<Rightarrow> c
      | Some l \<Rightarrow> l)"

definition lower :: "string \<Rightarrow> string" where
  \<comment> \<open>\<^verbatim>\<open>str.lower()\<close> on ASCII\<close>
  "lower s = map lower_char s"

definition strftime_A :: "datetime \<Rightarrow> string" where
  \<comment> \<open>\<^verbatim>\<open>strftime('%A')\<close>, the full weekday name\<close>
  "strftime_A ts =
     [''Monday'', ''Tuesday'', ''Wednesday'', ''Thursday'', ''Friday'', ''Saturday'', ''Sunday'']
       ! weekday ts"

definition strftime_a :: "datetime \<Rightarrow> string" where
  \<comment> \<open>\<^verbatim>\<open>strftime('%a')\<close>, the abbreviated weekday name\<close>
  "strftime_a ts = [''Mon'', ''Tue'', ''Wed'', ''Thu'', ''Fri'', ''Sat'', ''Sun''] ! weekday ts"

definition digit :: "nat \<Rightarrow> char" where
  "digit d = ''0123456789'' ! d"

definition two_digits :: "nat \<Rightarrow> string" where
  \<comment> \<open>a field of \<^verbatim>\<open>strftime\<close> padded to two digits; the hour and the minute are below 100\<close>
  "two_digits n = [digit (n div 10), digit (n mod 10)]"

definition hhmm :: "nat \<Rightarrow> string" where
  \<comment> \<open>a time of day given in minutes since midnight, as \<^verbatim>\<open>HH:MM\<close>\<close>
  "hhmm m = two_digits (m div 60) @ '':'' @ two_digits (m mod 60)"

definition strftime_HM :: "datetime \<Rightarrow> string" where
  \<comment> \<open>\<^verbatim>\<open>strftime('%H:%M')\<close>: the seconds are dropped\<close>
  "strftime_HM ts = hhmm (time_of ts div 60)"

fun str_less :: "string \<Rightarrow> string \<Rightarrow> bool" where
  \<comment> \<open>Python's \<^verbatim>\<open><\<close> on strings: lexicographic on code points\<close>
  "str_less [] [] = False"
| "str_less [] (y # ys) = True"
| "str_less (x # xs) [] = False"
| "str_less (x # xs) (y # ys) =
     ((of_char x :: nat) < of_char y \<or> (x = y \<and> str_less xs ys))"

definition truthy :: "string option \<Rightarrow> bool" where
  \<comment> \<open>truth value of an optional string: \<^verbatim>\<open>None\<close> and \<^verbatim>\<open>''\<close> are false\<close>
  "truthy s = (case s of None \<Rightarrow> False | Some x \<Rightarrow> x \<noteq> [])"

subsection \<open>Rows of the tables (\<^verbatim>\<open>models.py\<close>)\<close>

datatype CourtType = indoor | outdoor

fun CourtType_value :: "CourtType \<Rightarrow> string" where
  "CourtType_value indoor = ''indoor''"
| "CourtType_value outdoor = ''outdoor''"

record User =
  u_id :: int
  u_name :: string
  u_email :: string

record Court =
  c_id :: int
  c_name :: string
  c_type :: CourtType
  c_enabled :: bool
  c_base_hourly :: int

record EquipmentItem =
  ei_id :: int
  ei_sku :: string
  ei_total_quantity :: int
  ei_active :: bool

record Coach =
  co_id :: int
  co_name :: string
  co_hourly_rate :: int
  co_active :: bool

record CoachAvailability =
  ca_id :: int
  ca_coach_id :: int
  ca_day_of_week :: string
  ca_start_time :: string
  ca_end_time :: string

text \<open>
  The \<^verbatim>\<open>match\<close> object of a rule. \<open>m_days\<close> is \<^verbatim>\<open>match.get('days')\<close> with an
  absent key read as the empty list (both are false in \<^verbatim>\<open>if days\<close>); \<open>m_start\<close> and
  \<open>m_end\<close> are the parsed \<^verbatim>\<open>HH:MM\<close> strings in seconds since midnight, \<open>None\<close>
  when the key is absent or the string empty.
\<close>

record match_clause =
  m_days :: "string list"
  m_start :: "nat option"
  m_end :: "nat option"

text \<open>
  The \<^verbatim>\<open>rule_json\<close> column. \<open>rj_match\<close> is \<open>None\<close> when the \<^verbatim>\<open>match\<close> key is
  absent or holds the empty object, the two cases in which \<^verbatim>\<open>not match\<close> holds.
\<close>

record rule_json =
  rj_match :: "match_clause option"
  rj_applies_to :: "string option"
  rj_modifier_type :: "string option"
  rj_modifier_value :: "real option"
  rj_stack_behavior :: "string option"

record PricingRule =
  pr_id :: int
  pr_name :: string
  pr_enabled :: bool
  pr_priority :: int
  pr_rule_json :: rule_json

record target =
  tg_type :: "string option"

subsection \<open>The rule evaluator (\<^verbatim>\<open>pricing.rule_applies\<close>)\<close>

definition days_mismatch :: "match_clause \<Rightarrow> datetime \<Rightarrow> bool" where
  "days_mismatch m start_ts =
     (m_days m \<noteq> [] \<and>
      (let weekday = lower (strftime_a start_ts);
           days_lower = map (\<lambda>d. lower (take 3 d)) (m_days m)
       in lower (take 3 weekday) \<notin> set days_lower))"

definition window_mismatch :: "match_clause \<Rightarrow> datetime \<Rightarrow> bool" where
  "window_mismatch m start_ts =
     (case m_start m of
        None \<Rightarrow> False
      | Some st \<Rightarrow>
          (case m_end m of
             None \<Rightarrow> False
           | Some et \<Rightarrow> \<not> (st \<le> time_of start_ts \<and> time_of start_ts < et)))"

definition type_mismatch :: "rule_json \<Rightarrow> target \<Rightarrow> bool" where
  "type_mismatch rj tg =
     (truthy (rj_applies_to rj) \<and> truthy (tg_type tg) \<and> rj_applies_to rj \<noteq> Some ''all'' \<and>
      rj_applies_to rj \<noteq> tg_type tg)"

definition rule_applies :: "rule_json \<Rightarrow> target \<Rightarrow> datetime \<Rightarrow> datetime \<Rightarrow> bool" where
  "rule_applies rj tg start_ts end_ts =
     (case rj_match rj of
        None \<Rightarrow> True
      | Some m \<Rightarrow>
          if days_mismatch m start_ts then False
          else if window_mismatch m start_ts then False
          else if type_mismatch rj tg then False
          else True)"

subsection \<open>The price engine (\<^verbatim>\<open>pricing.compute_price\<close>)\<close>

record equipment_req =
  e_sku :: string
  e_quantity :: "int option"
  e_fee :: "real option"
  e_meta_fee :: "real option"

record line_item =
  li_name :: string
  li_amount :: real

text \<open>The \<^verbatim>\<open>modifier\<close> text of a breakdown line: \<^verbatim>\<open>f"{val}%"\<close> or \<^verbatim>\<open>f"{val}"\<close>.\<close>

datatype modifier_text = Percent real | Plain real

record rule_line =
  rl_name :: string
  rl_modifier :: modifier_text
  rl_after :: real

record price_result =
  p_base :: real
  p_rule_breakdown :: "rule_line list"
  p_line_items :: "line_item list"
  p_total :: real

text \<open>
  A value of the column \<^verbatim>\<open>resource_id = Column(Integer)\<close>. The handler writes the
  integer key of a court or coach and the SKU string of an equipment line. The column
  has integer affinity: a text that is a numeric literal is stored as that number (an
  integer when the conversion loses nothing), any other text is stored as text. Numbers
  are idealised: no 64-bit bound, no rounding.
\<close>

datatype resource_ref = IntRef int | RealRef real | SkuRef string

definition is_space :: "char \<Rightarrow> bool" where
  "is_space c = (c \<in> set [CHR 0x09, CHR 0x0A, CHR 0x0B, CHR 0x0C, CHR 0x0D, CHR 0x20])"

definition is_digit :: "char \<Rightarrow> bool" where
  "is_digit c = (c \<in> set ''0123456789'')"

definition digits_value :: "string \<Rightarrow> nat" where
  "digits_value ds = foldl (\<lambda>n c. 10 * n + (of_char c - 48)) 0 ds"

definition split_sign :: "string \<Rightarrow> bool \<times> string" where
  \<comment> \<open>an optional sign; the flag says that it is a minus\<close>
  "split_sign s =
     (case s of
        [] \<Rightarrow> (False, [])
      | c # r \<Rightarrow> if c = CHR ''-'' then (True, r) else if c = CHR ''+'' then (False, r) else (False, s))"

definition numeric_literal :: "string \<Rightarrow> real option" where
  \<comment> \<open>the number a text denotes when the whole text, white space at both ends aside, is a
      numeric literal: a sign, digits with an optional point, an optional exponent\<close>
  "numeric_literal s =
     (let body = rev (dropWhile is_space (rev (dropWhile is_space s)));
          unsigned = snd (split_sign body);
          int_part = takeWhile is_digit unsigned;
          after_int = dropWhile is_digit unsigned;
          has_point = (after_int \<noteq> [] \<and> hd after_int = CHR ''.'');
          frac_part = (if has_point then takeWhile is_digit (tl after_int) else []);
          after_frac = (if has_point then dropWhile is_digit (tl after_int) else after_int);
          mantissa = real (digits_value (int_part @ frac_part)) / 10 ^ length frac_part;
          signed = (if fst (split_sign body) then - mantissa else mantissa)
      in if int_part @ frac_part = [] then None
         else if after_frac = [] then Some signed
         else if hd after_frac = CHR ''e'' \<or> hd after_frac = CHR ''E'' then
           (let ds = snd (split_sign (tl after_frac))
            in if ds \<noteq> [] \<and> list_all is_digit ds
               then Some (if fst (split_sign (tl after_frac))
                          then signed / 10 ^ digits_value ds
                          else signed * 10 ^ digits_value ds)
               else None)
         else None)"

definition of_number :: "real \<Rightarrow> resource_ref" where
  "of_number r = (if r = of_int \<lfloor>r\<rfloor> then IntRef \<lfloor>r\<rfloor> else RealRef r)"

fun integer_column :: "resource_ref \<Rightarrow> resource_ref" where
  \<comment> \<open>what the column gives back for a value written to it\<close>
  "integer_column (IntRef n) = IntRef n"
| "integer_column (RealRef r) = of_number r"
| "integer_column (SkuRef s) = (case numeric_literal s of None \<Rightarrow> SkuRef s | Some r \<Rightarrow> of_number r)"

text \<open>
  The slot hash \<^verbatim>\<open>f"{start.isoformat()}_{end.isoformat()}_{resource}"\<close> is kept as the
  triple it is built from; the last component is \<open>None\<close> for the literal
  \<^verbatim>\<open>'unknown'\<close> that \<^verbatim>\<open>cancel_booking\<close> uses for a booking without allocations.
\<close>

datatype slot_hash = SlotHash datetime datetime "resource_ref option"

record Booking =
  b_id :: int
  b_user_id :: int
  b_start_ts :: datetime
  b_end_ts :: datetime
  b_status :: string
  b_total_price :: real
  b_pricing_snapshot :: price_result
  b_created_at :: datetime

record BookingAllocation =
  ba_id :: int
  ba_booking_id :: int
  ba_resource_type :: string
  ba_resource_id :: resource_ref
  ba_quantity :: int

definition resource_id :: "BookingAllocation \<Rightarrow> resource_ref" where
  \<comment> \<open>the attribute \<^verbatim>\<open>alloc.resource_id\<close> of a loaded row; \<open>ba_resource_id\<close> is the value
      that was written\<close>
  "resource_id alloc = integer_column (ba_resource_id alloc)"

record WaitlistEntry =
  w_id :: int
  w_slot_hash :: slot_hash
  w_user_id :: int
  w_created_at :: datetime

datatype audit_payload = UserEmail string | NextWaitlistUserId int

record AuditEvent =
  ae_id :: int
  ae_booking_id :: int
  ae_event_type :: string
  ae_payload :: audit_payload

record database =
  users :: "User list"
  courts :: "Court list"
  equipment_items :: "EquipmentItem list"
  coaches :: "Coach list"
  coach_availability :: "CoachAvailability list"
  bookings :: "Booking list"
  booking_allocations :: "BookingAllocation list"
  pricing_rules :: "PricingRule list"
  waitlist_entries :: "WaitlistEntry list"
  audit_events :: "AuditEvent list"

definition apply_modifier :: "PricingRule \<Rightarrow> real \<times> rule_line list \<Rightarrow> real \<times> rule_line list" where
  \<comment> \<open>the body of the loop over the applicable rules; the state is
      \<^verbatim>\<open>(total, breakdown_rules)\<close>\<close>
  "apply_modifier r acc =
     (let total = fst acc;
          breakdown_rules = snd acc;
          typ = rj_modifier_type (pr_rule_json r);
          val = (case rj_modifier_value (pr_rule_json r) of None \<Rightarrow> 0 | Some v \<Rightarrow> v);
          stack = (case rj_stack_behavior (pr_rule_json r) of None \<Rightarrow> ''additive'' | Some s \<Rightarrow> s)
      in if typ = Some ''percentage'' then
           (let total' =
                  (if stack = ''additive'' then total + total * (val / 100)
                   else if stack = ''multiplicative'' then total * (1 + val / 100)
                   else if stack = ''max'' then max total (total * (1 + val / 100))
                   else total)
            in (total', breakdown_rules @
                  [\<lparr>rl_name = pr_name r, rl_modifier = Percent val, rl_after = total'\<rparr>]))
         else if typ = Some ''absolute'' then
           (total + val, breakdown_rules @
              [\<lparr>rl_name = pr_name r, rl_modifier = Plain val, rl_after = total + val\<rparr>])
         else (total, breakdown_rules))"

definition quantity_of :: "equipment_req \<Rightarrow> int" where
  \<comment> \<open>\<^verbatim>\<open>e.get('quantity', 1)\<close>\<close>
  "quantity_of e = (case e_quantity e of None \<Rightarrow> 1 | Some q \<Rightarrow> q)"

definition equipment_fee :: "equipment_req \<Rightarrow> line_item list \<times> real \<Rightarrow> line_item list \<times> real" where
  \<comment> \<open>the body of the loop over the equipment lines; the state is
      \<^verbatim>\<open>(line_items, eq_total)\<close>\<close>
  "equipment_fee e acc =
     (let qty = quantity_of e;
          fee = (case e_fee e of
                   Some f \<Rightarrow> f
                 | None \<Rightarrow> (case e_meta_fee e of None \<Rightarrow> 0 | Some f \<Rightarrow> f));
          amount = fee * real_of_int qty
      in ((if amount \<noteq> 0
           then fst acc @ [\<lparr>li_name = ''Equipment '' @ e_sku e, li_amount = amount\<rparr>]
           else fst acc),
          snd acc + amount))"

definition applicable_rules :: "database \<Rightarrow> Court \<Rightarrow> datetime \<Rightarrow> datetime \<Rightarrow> PricingRule list" where
  \<comment> \<open>the enabled rules that apply, after \<^verbatim>\<open>applicable.sort(key=priority, reverse=True)\<close>;
      Python's sort is stable, also with \<^verbatim>\<open>reverse=True\<close>\<close>
  "applicable_rules db court start_ts end_ts =
     (let rules = filter pr_enabled (pricing_rules db);
          tg = \<lparr>tg_type = Some (CourtType_value (c_type court))\<rparr>;
          applicable = filter (\<lambda>r. rule_applies (pr_rule_json r) tg start_ts end_ts) rules
      in sort_key (\<lambda>r. - pr_priority r) applicable)"

definition compute_price ::
  "database \<Rightarrow> Court \<Rightarrow> datetime \<Rightarrow> datetime \<Rightarrow> equipment_req list \<Rightarrow> Coach option \<Rightarrow> price_result" where
  "compute_price db court start_ts end_ts equipment coach =
     (let duration_hours = real_of_int (total_seconds end_ts start_ts) / 3600;
          base = real_of_int (c_base_hourly court) * duration_hours;
          line_items0 = [\<lparr>li_name = ''Court '' @ c_name court @ '' base'', li_amount = base\<rparr>];
          applicable = applicable_rules db court start_ts end_ts;
          after_rules = foldl (\<lambda>acc r. apply_modifier r acc) (base, []) applicable;
          after_equipment = foldl (\<lambda>acc e. equipment_fee e acc) (line_items0, 0) equipment;
          total2 = fst after_rules + snd after_equipment
      in case coach of
           None \<Rightarrow>
             \<lparr>p_base = base, p_rule_breakdown = snd after_rules,
              p_line_items = fst after_equipment, p_total = total2\<rparr>
         | Some co \<Rightarrow>
             (let coach_total = real_of_int (co_hourly_rate co) * duration_hours
              in \<lparr>p_base = base, p_rule_breakdown = snd after_rules,
                  p_line_items = fst after_equipment @
                    [\<lparr>li_name = ''Coach '' @ co_name co, li_amount = coach_total\<rparr>],
                  p_total = total2 + coach_total\<rparr>))"

subsection \<open>The booking handler (\<^verbatim>\<open>main.create_booking\<close>)\<close>

record BookingRequest =
  req_user_email :: string
  req_start_ts :: datetime
  req_end_ts :: datetime
  req_court_id :: int
  req_equipment :: "equipment_req list"
  req_coach_id :: "int option"
  req_idempotency_key :: "string option"

text \<open>
  The \<^verbatim>\<open>HTTPException\<close>s of the two handlers, one constructor per \<^verbatim>\<open>detail\<close> text:
  \<^verbatim>\<open>'court unavailable'\<close>, \<^verbatim>\<open>'Equipment {sku} not available'\<close>,
  \<^verbatim>\<open>'Insufficient {sku} availability. Requested: {requested_qty}, Available: {available_qty}'\<close>,
  \<^verbatim>\<open>'Coach not available'\<close>, \<^verbatim>\<open>'Coach already booked for this time slot'\<close>,
  \<^verbatim>\<open>'Coach not available on {booking_day}'\<close>,
  \<^verbatim>\<open>'Coach availability is {start_time}-{end_time} on {booking_day}'\<close>,
  \<^verbatim>\<open>'booking not found'\<close> and \<^verbatim>\<open>'court not found'\<close>.
\<close>

datatype http_error =
    CourtUnavailable
  | EquipmentNotAvailable string
  | InsufficientAvailability string int int
  | CoachNotAvailable
  | CoachAlreadyBooked
  | CoachNotAvailableOn string
  | CoachAvailabilityIs string string string
  | BookingNotFound
  | CourtNotFound

fun status_code :: "http_error \<Rightarrow> nat" where
  "status_code BookingNotFound = 404"
| "status_code CourtNotFound = 404"
| "status_code _ = 400"

datatype booking_outcome =
    Confirmed int real price_result
  | Waitlisted int
  | Rejected http_error

fun is_confirmed :: "booking_outcome \<Rightarrow> bool" where
  "is_confirmed (Confirmed booking_id t price) = True"
| "is_confirmed _ = False"

definition next_id :: "int list \<Rightarrow> int" where
  \<comment> \<open>the key the database gives a new row: one more than the largest key in use\<close>
  "next_id ids = foldr max ids 0 + 1"

definition allocations :: "database \<Rightarrow> Booking \<Rightarrow> BookingAllocation list" where
  \<comment> \<open>the relationship \<^verbatim>\<open>Booking.allocations\<close>\<close>
  "allocations db b = filter (\<lambda>a. ba_booking_id a = b_id b) (booking_allocations db)"

definition overlapping_bookings :: "database \<Rightarrow> datetime \<Rightarrow> datetime \<Rightarrow> Booking list" where
  "overlapping_bookings db start_ts end_ts =
     filter (\<lambda>b. b_start_ts b < end_ts \<and> b_end_ts b > start_ts \<and> b_status b = ''confirmed'')
       (bookings db)"

definition allocated :: "database \<Rightarrow> Booking list \<Rightarrow> string \<Rightarrow> resource_ref \<Rightarrow> bool" where
  \<comment> \<open>the nested \<^verbatim>\<open>for b in overlapping: for alloc in b.allocations\<close> finds an allocation
      of this type on this resource\<close>
  "allocated db overlapping rtype rid =
     list_ex (\<lambda>b. list_ex (\<lambda>alloc. ba_resource_type alloc = rtype \<and> resource_id alloc = rid)
                      (allocations db b)) overlapping"

definition booked_qty :: "database \<Rightarrow> Booking list \<Rightarrow> string \<Rightarrow> int" where
  \<comment> \<open>the sum the handler computes: \<^verbatim>\<open>alloc.resource_id == sku\<close> compares the value read
      from the integer column with the string of the request\<close>
  "booked_qty db overlapping sku =
     sum_list (map ba_quantity
       (filter (\<lambda>alloc. ba_resource_type alloc = ''equipment'' \<and> resource_id alloc = SkuRef sku)
          (concat (map (allocations db) overlapping))))"

fun check_equipment :: "database \<Rightarrow> Booking list \<Rightarrow> equipment_req list \<Rightarrow> http_error option" where
  \<comment> \<open>the equipment validation loop; \<open>Some\<close> is the exception raised at the first failing line\<close>
  "check_equipment db overlapping [] = None"
| "check_equipment db overlapping (e # es) =
     (let sku = e_sku e;
          requested_qty = quantity_of e
      in case find (\<lambda>i. ei_sku i = sku) (equipment_items db) of
           None \<Rightarrow> Some (EquipmentNotAvailable sku)
         | Some equipment_item \<Rightarrow>
             if \<not> ei_active equipment_item then Some (EquipmentNotAvailable sku)
             else
               (let available_qty = ei_total_quantity equipment_item - booked_qty db overlapping sku
                in if requested_qty > available_qty
                   then Some (InsufficientAvailability sku requested_qty available_qty)
                   else check_equipment db overlapping es))"

definition named_coach :: "BookingRequest \<Rightarrow> int option" where
  \<comment> \<open>\<^verbatim>\<open>if req.coach_id\<close>: \<^verbatim>\<open>None\<close> and \<^verbatim>\<open>0\<close> are false\<close>
  "named_coach req = (case req_coach_id req of None \<Rightarrow> None | Some c \<Rightarrow> if c = 0 then None else Some c)"

definition check_coach :: "database \<Rightarrow> Booking list \<Rightarrow> BookingRequest \<Rightarrow> http_error option" where
  \<comment> \<open>the coach validation; \<open>Some\<close> is the exception raised\<close>
  "check_coach db overlapping req =
     (case named_coach req of
        None \<Rightarrow> None
      | Some cid \<Rightarrow>
          (case find (\<lambda>c. co_id c = cid) (coaches db) of
             None \<Rightarrow> Some CoachNotAvailable
           | Some coach \<Rightarrow>
               if \<not> co_active coach then Some CoachNotAvailable
               else if allocated db overlapping ''coach'' (IntRef cid) then Some CoachAlreadyBooked
               else
                 (let booking_day = lower (strftime_A (req_start_ts req));
                      booking_start_time = strftime_HM (req_start_ts req);
                      booking_end_time = strftime_HM (req_end_ts req)
                  in case find (\<lambda>a. ca_coach_id a = cid \<and> ca_day_of_week a = booking_day)
                            (coach_availability db) of
                       None \<Rightarrow> Some (CoachNotAvailableOn booking_day)
                     | Some av \<Rightarrow>
                         if str_less booking_start_time (ca_start_time av) \<or>
                            str_less (ca_end_time av) booking_end_time
                         then Some (CoachAvailabilityIs (ca_start_time av) (ca_end_time av) booking_day)
                         else None)))"

definition get_or_create_user :: "database \<Rightarrow> string \<Rightarrow> User \<times> database" where
  \<comment> \<open>the first statements of the handler: the new row is committed at once\<close>
  "get_or_create_user db email =
     (case find (\<lambda>u. u_email u = email) (users db) of
        Some user \<Rightarrow> (user, db)
      | None \<Rightarrow>
          (let user = \<lparr>u_id = next_id (map u_id (users db)),
                       u_name = takeWhile (\<lambda>c. c \<noteq> CHR ''@'') email,
                       u_email = email\<rparr>
           in (user, db\<lparr>users := users db @ [user]\<rparr>)))"

definition confirm_booking ::
  "database \<Rightarrow> datetime \<Rightarrow> User \<Rightarrow> BookingRequest \<Rightarrow> price_result \<Rightarrow> booking_outcome \<times> database" where
  \<comment> \<open>the writes after all checks have passed: the booking, its allocations, the audit
      event; \<open>now\<close> is the database clock that fills \<^verbatim>\<open>created_at\<close>\<close>
  "confirm_booking db now user req price =
     (let booking = \<lparr>b_id = next_id (map b_id (bookings db)), b_user_id = u_id user,
                      b_start_ts = req_start_ts req, b_end_ts = req_end_ts req,
                      b_status = ''confirmed'', b_total_price = p_total price,
                      b_pricing_snapshot = price, b_created_at = now\<rparr>;
          a0 = next_id (map ba_id (booking_allocations db));
          alloc = \<lparr>ba_id = a0, ba_booking_id = b_id booking, ba_resource_type = ''court'',
                    ba_resource_id = IntRef (req_court_id req), ba_quantity = 1\<rparr>;
          eas = map (\<lambda>(i, e). \<lparr>ba_id = a0 + 1 + int i, ba_booking_id = b_id booking,
                                 ba_resource_type = ''equipment'', ba_resource_id = SkuRef (e_sku e),
                                 ba_quantity = quantity_of e\<rparr>)
                    (enumerate 0 (req_equipment req));
          cas = (case named_coach req of
                   None \<Rightarrow> []
                 | Some cid \<Rightarrow>
                     [\<lparr>ba_id = a0 + 1 + int (length eas), ba_booking_id = b_id booking,
                       ba_resource_type = ''coach'', ba_resource_id = IntRef cid,
                       ba_quantity = 1\<rparr>]);
          audit = \<lparr>ae_id = next_id (map ae_id (audit_events db)), ae_booking_id = b_id booking,
                    ae_event_type = ''confirmed'', ae_payload = UserEmail (req_user_email req)\<rparr>
      in (Confirmed (b_id booking) (p_total price) price,
          db\<lparr>bookings := bookings db @ [booking],
             booking_allocations := booking_allocations db @ [alloc] @ eas @ cas,
             audit_events := audit_events db @ [audit]\<rparr>))"

definition create_booking :: "database \<Rightarrow> datetime \<Rightarrow> BookingRequest \<Rightarrow> booking_outcome \<times> database" where
  "create_booking db0 now req =
     (let (user, db) = get_or_create_user db0 (req_user_email req)
      in case find (\<lambda>c. c_id c = req_court_id req) (courts db) of
           None \<Rightarrow> (Rejected CourtUnavailable, db)
         | Some court \<Rightarrow>
             if \<not> c_enabled court then (Rejected CourtUnavailable, db)
             else
               (let coach = (case named_coach req of
                               None \<Rightarrow> None
                             | Some cid \<Rightarrow> find (\<lambda>c. co_id c = cid) (coaches db));
                    price = compute_price db court (req_start_ts req) (req_end_ts req)
                              (req_equipment req) coach;
                    slot_hash = SlotHash (req_start_ts req) (req_end_ts req)
                                  (Some (IntRef (req_court_id req)));
                    overlapping = overlapping_bookings db (req_start_ts req) (req_end_ts req)
                in if allocated db overlapping ''court'' (IntRef (req_court_id req)) then
                     (let w = \<lparr>w_id = next_id (map w_id (waitlist_entries db)),
                               w_slot_hash = slot_hash, w_user_id = u_id user,
                               w_created_at = now\<rparr>
                      in (Waitlisted (w_id w), db\<lparr>waitlist_entries := waitlist_entries db @ [w]\<rparr>))
                   else
                     (case check_equipment db overlapping (req_equipment req) of
                        Some err \<Rightarrow> (Rejected err, db)
                      | None \<Rightarrow>
                          (case check_coach db overlapping req of
                             Some err \<Rightarrow> (Rejected err, db)
                           | None \<Rightarrow> confirm_booking db now user req price))))"

subsection \<open>The cancellation handler (\<^verbatim>\<open>main.cancel_booking\<close>)\<close>

datatype cancel_outcome =
    Cancelled "int option"
  | CancelRejected http_error

definition cancel_slot_hash :: "database \<Rightarrow> Booking \<Rightarrow> slot_hash" where
  \<comment> \<open>the hash recomputed from the booking and its first allocation\<close>
  "cancel_slot_hash db booking =
     SlotHash (b_start_ts booking) (b_end_ts booking)
       (case allocations db booking of [] \<Rightarrow> None | a # _ \<Rightarrow> Some (resource_id a))"

definition next_waitlist :: "database \<Rightarrow> slot_hash \<Rightarrow> WaitlistEntry option" where
  \<comment> \<open>\<^verbatim>\<open>query(WaitlistEntry).filter(slot_hash == h).order_by(created_at).first()\<close>\<close>
  "next_waitlist db h =
     (case sort_key w_created_at (filter (\<lambda>w. w_slot_hash w = h) (waitlist_entries db)) of
        [] \<Rightarrow> None
      | w # _ \<Rightarrow> Some w)"

definition cancel_booking :: "database \<Rightarrow> int \<Rightarrow> cancel_outcome \<times> database" where
  "cancel_booking db0 booking_id =
     (case find (\<lambda>b. b_id b = booking_id) (bookings db0) of
        None \<Rightarrow> (CancelRejected BookingNotFound, db0)
      | Some booking0 \<Rightarrow>
          (let booking = booking0\<lparr>b_status := ''cancelled''\<rparr>;
               db = db0\<lparr>bookings := map (\<lambda>b. if b_id b = booking_id
                                                then b\<lparr>b_status := ''cancelled''\<rparr> else b)
                                          (bookings db0)\<rparr>;
               slot_hash = cancel_slot_hash db booking
           in case next_waitlist db slot_hash of
                Some next_user \<Rightarrow>
                  (let audit = \<lparr>ae_id = next_id (map ae_id (audit_events db)),
                                ae_booking_id = b_id booking, ae_event_type = ''cancelled'',
                                ae_payload = NextWaitlistUserId (w_user_id next_user)\<rparr>
                   in (Cancelled (Some (w_user_id next_user)),
                       db\<lparr>audit_events := audit_events db @ [audit]\<rparr>))
              | None \<Rightarrow> (Cancelled None, db)))"

subsection \<open>The quoting handler (\<^verbatim>\<open>main.simulate_pricing\<close>)\<close>

definition simulate_pricing ::
  "database \<Rightarrow> datetime \<Rightarrow> datetime \<Rightarrow> int \<Rightarrow> (http_error + price_result) \<times> database" where
  "simulate_pricing db start_ts end_ts court_id =
     (case find (\<lambda>c. c_id c = court_id) (courts db) of
        None \<Rightarrow> (Inl CourtNotFound, db)
      | Some court \<Rightarrow> (Inr (compute_price db court start_ts end_ts [] None), db))"

subsection \<open>The claim's own words\<close>

definition overlap :: "datetime \<Rightarrow> datetime \<Rightarrow> datetime \<Rightarrow> datetime \<Rightarrow> bool" where
  \<comment> \<open>two intervals overlap iff \<^verbatim>\<open>a.start < b.end && b.start < a.end\<close>\<close>
  "overlap a_start a_end b_start b_end = (a_start < b_end \<and> b_start < a_end)"

definition court_unavailable :: "database \<Rightarrow> int \<Rightarrow> bool" where
  \<comment> \<open>the primary resource is unknown or disabled: the handler's test
      \<^verbatim>\<open>not court or not court.enabled\<close>\<close>
  "court_unavailable db cid =
     (case find (\<lambda>c. c_id c = cid) (courts db) of None \<Rightarrow> True | Some court \<Rightarrow> \<not> c_enabled court)"

definition within_window :: "datetime \<Rightarrow> datetime \<Rightarrow> nat \<Rightarrow> nat \<Rightarrow> bool" where
  \<comment> \<open>the interval lies entirely within the window from minute \<open>ws\<close> to minute \<open>we\<close> of
      the day of its start\<close>
  "within_window start_ts end_ts ws we =
     (let midnight = (start_ts div 86400) * 86400
      in midnight + int ws * 60 \<le> start_ts \<and> end_ts \<le> midnight + int we * 60)"

definition coach_inactive :: "database \<Rightarrow> int \<Rightarrow> bool" where
  \<comment> \<open>the coach is unknown or not active: the handler's test
      \<^verbatim>\<open>not coach or not coach.active\<close>\<close>
  "coach_inactive db cid =
     (case find (\<lambda>c. co_id c = cid) (coaches db) of None \<Rightarrow> True | Some coach \<Rightarrow> \<not> co_active coach)"

definition holds_resource :: "database \<Rightarrow> datetime \<Rightarrow> datetime \<Rightarrow> string \<Rightarrow> resource_ref \<Rightarrow> bool" where
  \<comment> \<open>some confirmed reservation whose interval overlaps \<open>[start_ts, end_ts)\<close> has an
      allocation of this type on this resource\<close>
  "holds_resource db start_ts end_ts rtype rid =
     (\<exists>b \<in> set (bookings db). \<exists>a \<in> set (booking_allocations db).
        b_status b = ''confirmed'' \<and> overlap (b_start_ts b) (b_end_ts b) start_ts end_ts \<and>
        ba_booking_id a = b_id b \<and> ba_resource_type a = rtype \<and> resource_id a = rid)"

definition allocated_quantity :: "database \<Rightarrow> datetime \<Rightarrow> datetime \<Rightarrow> string \<Rightarrow> int" where
  \<comment> \<open>the quantity of a SKU already allocated by confirmed reservations whose interval
      overlaps \<open>[start_ts, end_ts)\<close>: the equipment rows written for that SKU\<close>
  "allocated_quantity db start_ts end_ts sku =
     sum_list (map (\<lambda>b. sum_list (map ba_quantity
                  (filter (\<lambda>a. ba_booking_id a = b_id b \<and> ba_resource_type a = ''equipment'' \<and>
                                ba_resource_id a = SkuRef sku)
                     (booking_allocations db))))
       (filter (\<lambda>b. b_status b = ''confirmed'' \<and>
                      overlap (b_start_ts b) (b_end_ts b) start_ts end_ts)
          (bookings db)))"

definition primary_resource :: "database \<Rightarrow> Booking \<Rightarrow> resource_ref option" where
  \<comment> \<open>the resource of the first allocation row that belongs to the reservation, if it
      has one\<close>
  "primary_resource db b =
     (case filter (\<lambda>a. ba_booking_id a = b_id b) (booking_allocations db) of
        [] \<Rightarrow> None
      | a # _ \<Rightarrow> Some (resource_id a))"

text \<open>
  The tagged variants of the specification's fold: a modifier is a percentage or an
  absolute amount, a percentage stacks additively, multiplicatively or by maximum.
  \<open>rule_kind\<close> reads them off a stored rule; a rule of no such kind leaves the total as
  it is.
\<close>

datatype Modifier = Percentage real | Absolute real

datatype StackBehavior = Additive | Multiplicative | Max

fun fold_step :: "real \<Rightarrow> Modifier \<times> StackBehavior \<Rightarrow> real" where
  "fold_step t (Percentage v, Additive) = t + t * v / 100"
| "fold_step t (Percentage v, Multiplicative) = t * (1 + v / 100)"
| "fold_step t (Percentage v, Max) = max t (t * (1 + v / 100))"
| "fold_step t (Absolute v, _) = t + v"

definition rule_kind :: "PricingRule \<Rightarrow> (Modifier \<times> StackBehavior) option" where
  "rule_kind r =
     (let v = (case rj_modifier_value (pr_rule_json r) of None \<Rightarrow> 0 | Some x \<Rightarrow> x);
          stack = rj_stack_behavior (pr_rule_json r)
      in if rj_modifier_type (pr_rule_json r) = Some ''absolute'' then Some (Absolute v, Additive)
         else if rj_modifier_type (pr_rule_json r) = Some ''percentage'' then
           (if stack = None \<or> stack = Some ''additive'' then Some (Percentage v, Additive)
            else if stack = Some ''multiplicative'' then Some (Percentage v, Multiplicative)
            else if stack = Some ''max'' then Some (Percentage v, Max)
            else None)
         else None)"

definition fold_rules :: "real \<Rightarrow> PricingRule list \<Rightarrow> real" where
  "fold_rules base rs =
     foldl (\<lambda>t r. case rule_kind r of None \<Rightarrow> t | Some k \<Rightarrow> fold_step t k) base rs"

subsection \<open>Sample data: the seeded courts, rules and coaches\<close>

definition peak_hours :: PricingRule where
  "peak_hours =
     \<lparr>pr_id = 1, pr_name = ''Peak Hours (6-9 PM)'', pr_enabled = True, pr_priority = 10,
      pr_rule_json =
        \<lparr>rj_match = Some \<lparr>m_days = [''mon'', ''tue'', ''wed'', ''thu'', ''fri'', ''sat'', ''sun''],
                           m_start = Some 64800, m_end = Some 75600\<rparr>,
         rj_applies_to = None, rj_modifier_type = Some ''percentage'',
         rj_modifier_value = Some 20, rj_stack_behavior = None\<rparr>\<rparr>"

definition indoor_premium :: PricingRule where
  "indoor_premium =
     \<lparr>pr_id = 3, pr_name = ''Indoor Premium'', pr_enabled = True, pr_priority = 8,
      pr_rule_json =
        \<lparr>rj_match = None, rj_applies_to = Some ''indoor'',
         rj_modifier_type = Some ''percentage'', rj_modifier_value = Some 25,
         rj_stack_behavior = None\<rparr>\<rparr>"

definition court_1 :: Court where
  "court_1 = \<lparr>c_id = 1, c_name = ''court_1'', c_type = indoor, c_enabled = True,
              c_base_hourly = 600\<rparr>"

definition court_3 :: Court where
  "court_3 = \<lparr>c_id = 3, c_name = ''court_3'', c_type = outdoor, c_enabled = True,
              c_base_hourly = 400\<rparr>"

definition court_4 :: Court where
  \<comment> \<open>a court the administrator has disabled\<close>
  "court_4 = \<lparr>c_id = 4, c_name = ''court_4'', c_type = outdoor, c_enabled = False,
              c_base_hourly = 400\<rparr>"

definition mon_1000 :: datetime where
  \<comment> \<open>Monday 2025-12-15 10:00\<close>
  "mon_1000 = 63901389600"

definition mon_1730 :: datetime where
  "mon_1730 = 63901416600"

definition mon_1800 :: datetime where
  "mon_1800 = 63901418400"

definition mon_1900 :: datetime where
  "mon_1900 = 63901422000"

definition mon_2000 :: datetime where
  "mon_2000 = 63901425600"

definition mon_2100 :: datetime where
  "mon_2100 = 63901429200"

definition tue_0700 :: datetime where
  \<comment> \<open>Tuesday 2025-12-16 07:00\<close>
  "tue_0700 = 63901465200"

definition empty_db :: database where
  "empty_db =
     \<lparr>users = [], courts = [], equipment_items = [], coaches = [], coach_availability = [],
      bookings = [], booking_allocations = [], pricing_rules = [], waitlist_entries = [],
      audit_events = []\<rparr>"

definition seeded_db :: database where
  "seeded_db =
     empty_db
       \<lparr>courts := [court_1, court_3, court_4],
        equipment_items :=
          [\<lparr>ei_id = 1, ei_sku = ''racket'', ei_total_quantity = 10, ei_active = True\<rparr>],
        coaches :=
          [\<lparr>co_id = 1, co_name = ''Coach Alex'', co_hourly_rate = 300, co_active = True\<rparr>,
           \<lparr>co_id = 2, co_name = ''Coach Sarah'', co_hourly_rate = 250, co_active = False\<rparr>],
        coach_availability :=
          [\<lparr>ca_id = 1, ca_coach_id = 1, ca_day_of_week = ''monday'', ca_start_time = ''08:00'',
            ca_end_time = ''20:00''\<rparr>],
        pricing_rules := [peak_hours, indoor_premium]\<rparr>"

definition alice_booking :: Booking where
  \<comment> \<open>a confirmed reservation, Monday 19:00 to 20:00\<close>
  "alice_booking =
     \<lparr>b_id = 1, b_user_id = 1, b_start_ts = mon_1900, b_end_ts = mon_2000,
      b_status = ''confirmed'', b_total_price = 0,
      b_pricing_snapshot = \<lparr>p_base = 0, p_rule_breakdown = [], p_line_items = [], p_total = 0\<rparr>,
      b_created_at = 0\<rparr>"

definition booked_db :: "int \<Rightarrow> database" where
  \<comment> \<open>the seeded database after Alice has booked the court \<open>cid\<close> with 8 rackets\<close>
  "booked_db cid =
     seeded_db
       \<lparr>users := [\<lparr>u_id = 1, u_name = ''alice'', u_email = ''alice@example.com''\<rparr>],
        bookings := [alice_booking],
        booking_allocations :=
          [\<lparr>ba_id = 1, ba_booking_id = 1, ba_resource_type = ''court'',
            ba_resource_id = IntRef cid, ba_quantity = 1\<rparr>,
           \<lparr>ba_id = 2, ba_booking_id = 1, ba_resource_type = ''equipment'',
            ba_resource_id = SkuRef ''racket'', ba_quantity = 8\<rparr>]\<rparr>"

definition waiting_db :: database where
  \<comment> \<open>Alice holds court 1; Bob (user 2) and Carol (user 3) wait for her slot, Carol since
      an earlier time although her row is stored later; Dave (user 4) waits for another slot\<close>
  "waiting_db =
     booked_db 1
       \<lparr>waitlist_entries :=
          [\<lparr>w_id = 1, w_slot_hash = SlotHash mon_1900 mon_2000 (Some (IntRef 1)), w_user_id = 2,
            w_created_at = 20\<rparr>,
           \<lparr>w_id = 2, w_slot_hash = SlotHash mon_1900 mon_2000 (Some (IntRef 1)), w_user_id = 3,
            w_created_at = 10\<rparr>,
           \<lparr>w_id = 3, w_slot_hash = SlotHash mon_1000 mon_1900 (Some (IntRef 1)), w_user_id = 4,
            w_created_at = 5\<rparr>]\<rparr>"

definition numbered_db :: database where
  \<comment> \<open>as \<open>booked_db 3\<close>, but the catalogue item is the SKU \<^verbatim>\<open>123\<close>, of which Alice holds 8
      out of 10\<close>
  "numbered_db =
     booked_db 3
       \<lparr>equipment_items :=
          [\<lparr>ei_id = 1, ei_sku = ''123'', ei_total_quantity = 10, ei_active = True\<rparr>],
        booking_allocations :=
          [\<lparr>ba_id = 1, ba_booking_id = 1, ba_resource_type = ''court'',
            ba_resource_id = IntRef 3, ba_quantity = 1\<rparr>,
           \<lparr>ba_id = 2, ba_booking_id = 1, ba_resource_type = ''equipment'',
            ba_resource_id = SkuRef ''123'', ba_quantity = 8\<rparr>]\<rparr>"

definition service_charge :: PricingRule where
  \<comment> \<open>ten percent on top, for every court and time\<close>
  "service_charge =
     \<lparr>pr_id = 4, pr_name = ''Service charge'', pr_enabled = True, pr_priority = 5,
      pr_rule_json =
        \<lparr>rj_match = None, rj_applies_to = None, rj_modifier_type = Some ''percentage'',
         rj_modifier_value = Some 10, rj_stack_behavior = None\<rparr>\<rparr>"

definition lighting_fee :: PricingRule where
  \<comment> \<open>a flat 100, at the same priority\<close>
  "lighting_fee =
     \<lparr>pr_id = 5, pr_name = ''Lighting fee'', pr_enabled = True, pr_priority = 5,
      pr_rule_json =
        \<lparr>rj_match = None, rj_applies_to = None, rj_modifier_type = Some ''absolute'',
         rj_modifier_value = Some 100, rj_stack_behavior = None\<rparr>\<rparr>"

definition bob_request :: BookingRequest where
  \<comment> \<open>Bob asks for court 1, Monday 19:00 to 20:00, nothing else\<close>
  "bob_request =
     \<lparr>req_user_email = ''bob@example.com'', req_start_ts = mon_1900, req_end_ts = mon_2000,
      req_court_id = 1, req_equipment = [], req_coach_id = None, req_idempotency_key = None\<rparr>"

definition rackets :: "int \<Rightarrow> equipment_req" where
  "rackets n = \<lparr>e_sku = ''racket'', e_quantity = Some n, e_fee = None, e_meta_fee = None\<rparr>"

definition bob_court_3 :: BookingRequest where
  \<comment> \<open>Bob asks for court 3 instead, same hour\<close>
  "bob_court_3 = bob_request\<lparr>req_court_id := 3\<rparr>"

definition carol_court_3 :: BookingRequest where
  \<comment> \<open>Carol asks for the same court and hour as Bob\<close>
  "carol_court_3 = bob_court_3\<lparr>req_user_email := ''carol@example.com''\<rparr>"

definition bob_booking :: Booking where
  \<comment> \<open>the reservation that \<open>bob_court_3\<close> produces on \<open>booked_db 1\<close> at time 7\<close>
  "bob_booking =
     \<lparr>b_id = 2, b_user_id = 2, b_start_ts = mon_1900, b_end_ts = mon_2000,
      b_status = ''confirmed'',
      b_total_price = p_total (compute_price (booked_db 1) court_3 mon_1900 mon_2000 [] None),
      b_pricing_snapshot = compute_price (booked_db 1) court_3 mon_1900 mon_2000 [] None,
      b_created_at = 7\<rparr>"

section \<open>Properties of the rule evaluator and the price engine\<close>

lemmas time_defs = weekday_def time_of_def mon_1000_def mon_1730_def mon_1800_def mon_1900_def
  mon_2000_def mon_2100_def tue_0700_def

lemma numeric_literal_samples:
  "numeric_literal ''racket'' = None"
  "numeric_literal ''123'' = Some 123"
  by (simp_all add: numeric_literal_def is_space_def is_digit_def split_sign_def digits_value_def
      Let_def)

lemmas rule_applies_defs = rule_applies_def days_mismatch_def window_mismatch_def
  type_mismatch_def truthy_def lower_def lower_char_def strftime_a_def

text \<open>
  \<^bold>\<open>C2\<close> (the code departs from the claim). A rule that restricts to a resource category
  other than \<^verbatim>\<open>all\<close> should apply only to targets of that category. The evaluator returns
  \<^verbatim>\<open>True\<close> as soon as the \<^verbatim>\<open>match\<close> object is empty, before it reads \<^verbatim>\<open>applies_to\<close>:
  the seeded rule "Indoor Premium" (\<^verbatim>\<open>'match': {}, 'applies_to': 'indoor'\<close>) applies to the
  outdoor court 3, whose one-hour price of 400 becomes 500.
\<close>

theorem indoor_premium_applies_outdoors:
  "rj_match (pr_rule_json indoor_premium) = None \<and>
   rj_applies_to (pr_rule_json indoor_premium) = Some ''indoor'' \<and>
   CourtType_value (c_type court_3) = ''outdoor'' \<and>
   rule_applies (pr_rule_json indoor_premium)
     \<lparr>tg_type = Some (CourtType_value (c_type court_3))\<rparr> mon_1000 (mon_1000 + 3600) \<and>
   p_rule_breakdown (compute_price seeded_db court_3 mon_1000 (mon_1000 + 3600) [] None) =
     [\<lparr>rl_name = ''Indoor Premium'', rl_modifier = Percent 25, rl_after = 500\<rparr>]"
proof -
  have "applicable_rules seeded_db court_3 mon_1000 (mon_1000 + 3600) = [indoor_premium]"
    by (simp add: applicable_rules_def seeded_db_def empty_db_def court_3_def peak_hours_def
        indoor_premium_def rule_applies_defs time_defs)
  then have "p_rule_breakdown (compute_price seeded_db court_3 mon_1000 (mon_1000 + 3600) [] None) =
     [\<lparr>rl_name = ''Indoor Premium'', rl_modifier = Percent 25, rl_after = 500\<rparr>]"
    by (simp add: compute_price_def total_seconds_def apply_modifier_def indoor_premium_def
        court_3_def)
  then show ?thesis
    by (simp add: indoor_premium_def court_3_def rule_applies_def)
qed

text \<open>
  With a non-empty \<^verbatim>\<open>match\<close> object the category is checked: the early return is the
  only way past it.
\<close>

lemma rule_applies_category:
  "rj_match rj = Some m \<Longrightarrow> rj_applies_to rj = Some cat \<Longrightarrow> cat \<noteq> [] \<Longrightarrow> cat \<noteq> ''all'' \<Longrightarrow>
   tg_type tg = Some ty \<Longrightarrow> ty \<noteq> [] \<Longrightarrow> rule_applies rj tg s e \<Longrightarrow> cat = ty"
  by (auto simp add: rule_applies_def type_mismatch_def truthy_def split: if_splits)

text \<open>
  \<^bold>\<open>C8\<close>. For a rule with a time-of-day window \<open>[st, et)\<close> the evaluator never reads the
  end of the interval; the rule applies exactly when the time of day of the start instant
  lies in the half-open window and the rule's other clauses (days, category) let it
  through. So a start before \<open>st\<close> does not match wherever the interval ends, a start
  at \<open>et\<close> does not match, and a start at \<open>st\<close> passes the window test.
\<close>

theorem rule_applies_window:
  "rj_match rj = Some m \<and> m_start m = Some st \<and> m_end m = Some et \<longrightarrow>
     rule_applies rj tg s e = rule_applies rj tg s e' \<and>
     rule_applies rj tg s e =
       (st \<le> time_of s \<and> time_of s < et \<and>
        rule_applies (rj\<lparr>rj_match := Some (m\<lparr>m_start := None, m_end := None\<rparr>)\<rparr>) tg s e) \<and>
     (time_of s < st \<longrightarrow> \<not> rule_applies rj tg s e) \<and>
     (time_of s = et \<longrightarrow> \<not> rule_applies rj tg s e) \<and>
     (time_of s = st \<and> st < et \<longrightarrow>
        rule_applies rj tg s e =
        rule_applies (rj\<lparr>rj_match := Some (m\<lparr>m_start := None, m_end := None\<rparr>)\<rparr>) tg s e)"
  by (auto simp add: rule_applies_def window_mismatch_def days_mismatch_def type_mismatch_def)

theorem rule_applies_window_witness:
  "\<not> rule_applies (pr_rule_json peak_hours) \<lparr>tg_type = Some ''indoor''\<rparr> mon_1730 (mon_1730 + 3600) \<and>
   time_of (mon_1730 + 3600) \<in> {64800..<75600} \<and>
   rule_applies (pr_rule_json peak_hours) \<lparr>tg_type = Some ''indoor''\<rparr> mon_1800 mon_1900 \<and>
   \<not> rule_applies (pr_rule_json peak_hours) \<lparr>tg_type = Some ''indoor''\<rparr> mon_2100 (mon_2100 + 3600)"
proof -
  let ?m = "\<lparr>m_days = [''mon'', ''tue'', ''wed'', ''thu'', ''fri'', ''sat'', ''sun''],
             m_start = Some 64800, m_end = Some 75600\<rparr>"
  let ?tg = "\<lparr>tg_type = Some ''indoor''\<rparr>"
  have m: "rj_match (pr_rule_json peak_hours) = Some ?m \<and> m_start ?m = Some 64800 \<and>
      m_end ?m = Some 75600"
    by (simp add: peak_hours_def)
  have rest: "rule_applies (pr_rule_json peak_hours
      \<lparr>rj_match := Some (?m\<lparr>m_start := None, m_end := None\<rparr>)\<rparr>) ?tg mon_1800 mon_1900"
    by (simp add: peak_hours_def time_defs rule_applies_defs)
  have early: "\<not> rule_applies (pr_rule_json peak_hours) ?tg mon_1730 (mon_1730 + 3600)"
    using rule_applies_window [where rj = "pr_rule_json peak_hours" and m = ?m and st = 64800
        and et = 75600 and tg = ?tg and s = mon_1730 and e = "mon_1730 + 3600"] m
    by (simp add: time_defs)
  have at_start: "rule_applies (pr_rule_json peak_hours) ?tg mon_1800 mon_1900"
    using rule_applies_window [where rj = "pr_rule_json peak_hours" and m = ?m and st = 64800
        and et = 75600 and tg = ?tg and s = mon_1800 and e = mon_1900] m rest
    by (simp add: time_defs)
  have at_end: "\<not> rule_applies (pr_rule_json peak_hours) ?tg mon_2100 (mon_2100 + 3600)"
    using rule_applies_window [where rj = "pr_rule_json peak_hours" and m = ?m and st = 64800
        and et = 75600 and tg = ?tg and s = mon_2100 and e = "mon_2100 + 3600"] m
    by (simp add: time_defs)
  show ?thesis
    using early at_start at_end by (simp add: time_defs)
qed

lemma apply_modifier_total:
  "fst (apply_modifier r (t, bd)) = (case rule_kind r of None \<Rightarrow> t | Some k \<Rightarrow> fold_step t k)"
  by (simp add: apply_modifier_def rule_kind_def Let_def split: option.splits)

lemma foldl_apply_modifier:
  "fst (foldl (\<lambda>acc r. apply_modifier r acc) (t, bd) rs) = fold_rules t rs"
proof (induction rs arbitrary: t bd)
  case Nil
  show ?case by (simp add: fold_rules_def)
next
  case (Cons r rs)
  obtain t' bd' where step: "apply_modifier r (t, bd) = (t', bd')"
    by (cases "apply_modifier r (t, bd)")
  have "t' = (case rule_kind r of None \<Rightarrow> t | Some k \<Rightarrow> fold_step t k)"
    using apply_modifier_total [of r t bd] step by simp
  then show ?case
    using Cons.IH [of t' bd'] step by (simp add: fold_rules_def)
qed

lemma compute_price_base:
  "p_base (compute_price db court s e eq co) =
     real_of_int (c_base_hourly court) * (real_of_int (e - s) / 3600)"
  by (simp add: compute_price_def total_seconds_def Let_def split: option.splits)

lemma foldl_equipment_fee:
  "snd (foldl (\<lambda>acc x. equipment_fee x acc) (items, tot) eq) =
     tot + sum_list (map (\<lambda>x. snd (equipment_fee x ([], 0))) eq)"
proof (induction eq arbitrary: items tot)
  case Nil
  show ?case by simp
next
  case (Cons x xs)
  obtain items' tot' where step: "equipment_fee x (items, tot) = (items', tot')"
    by (cases "equipment_fee x (items, tot)")
  have "tot' = tot + snd (equipment_fee x ([], 0))"
    using step by (auto simp add: equipment_fee_def Let_def)
  then show ?case
    using Cons.IH [of items' tot'] step by simp
qed

lemma compute_price_total:
  "p_total (compute_price db court s e eq co) =
     fold_rules (real_of_int (c_base_hourly court) * (real_of_int (e - s) / 3600))
       (applicable_rules db court s e) +
     sum_list (map (\<lambda>x. snd (equipment_fee x ([], 0))) eq) +
     (case co of None \<Rightarrow> 0
      | Some c \<Rightarrow> real_of_int (co_hourly_rate c) * (real_of_int (e - s) / 3600))"
  by (simp add: compute_price_def total_seconds_def Let_def foldl_apply_modifier
      foldl_equipment_fee split: option.splits)

lemma compute_price_total_plain:
  "p_total (compute_price db court s e [] None) =
     fold_rules (real_of_int (c_base_hourly court) * (real_of_int (e - s) / 3600))
       (applicable_rules db court s e)"
  by (simp add: compute_price_def total_seconds_def Let_def foldl_apply_modifier)

lemma set_applicable_rules:
  "set (applicable_rules db court s e) =
     {r \<in> set (pricing_rules db). pr_enabled r \<and>
        rule_applies (pr_rule_json r) \<lparr>tg_type = Some (CourtType_value (c_type court))\<rparr> s e}"
  by (auto simp add: applicable_rules_def Let_def)

lemma sorted_applicable_rules:
  "sorted_wrt (\<lambda>a b. pr_priority a \<ge> pr_priority b) (applicable_rules db court s e)"
proof -
  have "sorted (map (\<lambda>r. - pr_priority r) (applicable_rules db court s e))"
    by (simp add: applicable_rules_def Let_def)
  then show ?thesis
    by (simp add: sorted_map sorted_wrt_iff_nth_less)
qed


lemma applicable_seeded_peak:
  "applicable_rules seeded_db court_1 mon_1900 mon_2000 = [peak_hours, indoor_premium]"
  by (simp add: applicable_rules_def seeded_db_def empty_db_def court_1_def peak_hours_def
      indoor_premium_def rule_applies_defs time_defs)

lemma applicable_peak_only:
  "applicable_rules (seeded_db\<lparr>pricing_rules := [peak_hours]\<rparr>) court_1 mon_1900 mon_2000 =
     [peak_hours]"
  by (simp add: applicable_rules_def seeded_db_def empty_db_def court_1_def peak_hours_def
      rule_applies_defs time_defs)

lemma rule_kind_peak: "rule_kind peak_hours = Some (Percentage 20, Additive)"
  by (simp add: rule_kind_def peak_hours_def)

lemma rule_kind_indoor: "rule_kind indoor_premium = Some (Percentage 25, Additive)"
  by (simp add: rule_kind_def indoor_premium_def)

text \<open>
  \<^bold>\<open>C3\<close>. The base is the hourly rate times the duration in hours. The total is the
  left-to-right fold of the specification's step over the enabled applicable rules,
  seeded with the base, plus the equipment fees and the coach fee; the rules are sorted
  by descending priority. In the fold a percentage adds
  \<open>total * v / 100\<close>, multiplies by \<open>1 + v / 100\<close> or takes the maximum (which never
  lowers the total), an absolute modifier adds \<open>v\<close>. Without equipment and coach, one
  additive rule gives
  \<open>base + base * v / 100\<close> (720 for a base of 600 and 20 percent), and two additive rules
  compound on the running total: \<open>base * (1 + v1 / 100) * (1 + v2 / 100)\<close>.
\<close>

theorem compute_price_stacking:
  "p_base (compute_price db court s e eq co) =
     real_of_int (c_base_hourly court) * (real_of_int (e - s) / 3600) \<and>
   p_total (compute_price db court s e eq co) =
     fold_rules (p_base (compute_price db court s e eq co)) (applicable_rules db court s e) +
     sum_list (map (\<lambda>x. snd (equipment_fee x ([], 0))) eq) +
     (case co of None \<Rightarrow> 0
      | Some c \<Rightarrow> real_of_int (co_hourly_rate c) * (real_of_int (e - s) / 3600)) \<and>
   set (applicable_rules db court s e) =
     {r \<in> set (pricing_rules db). pr_enabled r \<and>
        rule_applies (pr_rule_json r) \<lparr>tg_type = Some (CourtType_value (c_type court))\<rparr> s e} \<and>
   sorted_wrt (\<lambda>a b. pr_priority a \<ge> pr_priority b) (applicable_rules db court s e) \<and>
   t \<le> fold_step t (Percentage v, Max) \<and>
   (applicable_rules db court s e = [r] \<and> rule_kind r = Some (Percentage v, Additive) \<longrightarrow>
      p_total (compute_price db court s e [] None) =
        p_base (compute_price db court s e [] None) +
        p_base (compute_price db court s e [] None) * v / 100) \<and>
   (applicable_rules db court s e = [r1, r2] \<and> rule_kind r1 = Some (Percentage v1, Additive) \<and>
    rule_kind r2 = Some (Percentage v2, Additive) \<longrightarrow>
      p_total (compute_price db court s e [] None) =
        p_base (compute_price db court s e [] None) * (1 + v1 / 100) * (1 + v2 / 100))"
proof -
  let ?base = "p_base (compute_price db court s e [] None)"
  have base: "?base = real_of_int (c_base_hourly court) * (real_of_int (e - s) / 3600)"
    by (rule compute_price_base)
  have total: "p_total (compute_price db court s e [] None) =
      fold_rules ?base (applicable_rules db court s e)"
    by (simp only: base compute_price_total_plain)
  have one: "applicable_rules db court s e = [r] \<and> rule_kind r = Some (Percentage v, Additive) \<longrightarrow>
      p_total (compute_price db court s e [] None) = ?base + ?base * v / 100"
    by (simp add: total fold_rules_def)
  have two: "applicable_rules db court s e = [r1, r2] \<and>
      rule_kind r1 = Some (Percentage v1, Additive) \<and>
      rule_kind r2 = Some (Percentage v2, Additive) \<longrightarrow>
      p_total (compute_price db court s e [] None) = ?base * (1 + v1 / 100) * (1 + v2 / 100)"
    by (simp add: total fold_rules_def algebra_simps add_divide_distrib)
  have general: "p_total (compute_price db court s e eq co) =
      fold_rules (p_base (compute_price db court s e eq co)) (applicable_rules db court s e) +
      sum_list (map (\<lambda>x. snd (equipment_fee x ([], 0))) eq) +
      (case co of None \<Rightarrow> 0
       | Some c \<Rightarrow> real_of_int (co_hourly_rate c) * (real_of_int (e - s) / 3600))"
    by (simp only: compute_price_base compute_price_total)
  show ?thesis
    using compute_price_base general set_applicable_rules sorted_applicable_rules one two
    by simp
qed

theorem compute_price_stacking_witness:
  "p_base (compute_price (seeded_db\<lparr>pricing_rules := [peak_hours]\<rparr>) court_1 mon_1900 mon_2000 [] None) = 600 \<and>
   p_total (compute_price (seeded_db\<lparr>pricing_rules := [peak_hours]\<rparr>) court_1 mon_1900 mon_2000 [] None) = 720 \<and>
   p_total (compute_price seeded_db court_1 mon_1900 mon_2000 [] None) = 900 \<and>
   (900::real) \<noteq> 600 * (1 + (20 + 25) / 100)"
proof -
  note one = compute_price_stacking [where db = "seeded_db\<lparr>pricing_rules := [peak_hours]\<rparr>"
      and court = court_1 and s = mon_1900 and e = mon_2000 and eq = "[]" and co = None
      and r = peak_hours and v = 20]
  note two = compute_price_stacking [where db = seeded_db and court = court_1 and s = mon_1900
      and e = mon_2000 and eq = "[]" and co = None and ?r1.0 = peak_hours
      and ?r2.0 = indoor_premium and ?v1.0 = 20 and ?v2.0 = 25]
  have rate: "real_of_int (c_base_hourly court_1) * (real_of_int (mon_2000 - mon_1900) / 3600) = 600"
    by (simp add: court_1_def time_defs)
  have b1: "p_base (compute_price (seeded_db\<lparr>pricing_rules := [peak_hours]\<rparr>) court_1
      mon_1900 mon_2000 [] None) = 600"
    using one rate by simp
  have t1: "p_total (compute_price (seeded_db\<lparr>pricing_rules := [peak_hours]\<rparr>) court_1
      mon_1900 mon_2000 [] None) = 720"
    using one applicable_peak_only rule_kind_peak b1 by simp
  have b2: "p_base (compute_price seeded_db court_1 mon_1900 mon_2000 [] None) = 600"
    using two rate by simp
  have t2: "p_total (compute_price seeded_db court_1 mon_1900 mon_2000 [] None) = 900"
    using two applicable_seeded_peak rule_kind_peak rule_kind_indoor b2 by simp
  show ?thesis
    using b1 t1 t2 by simp
qed

text \<open>
  The sorted list of applicable rules depends on the rule table only through, for each
  priority, the enabled rules of that priority in their stored order: the sort is
  stable, so rules of different priority may be stored in any order.
\<close>

lemma mset_from_classes:
  assumes "\<And>k. filter (\<lambda>x. f x = k) xs = filter (\<lambda>x. f x = k) ys"
  shows "mset xs = mset ys"
proof (rule multiset_eqI)
  fix x
  have "count (mset xs) x = count (mset (filter (\<lambda>y. f y = f x) xs)) x"
    by simp
  also have "\<dots> = count (mset (filter (\<lambda>y. f y = f x) ys)) x"
    by (simp only: assms)
  also have "\<dots> = count (mset ys) x"
    by simp
  finally show "count (mset xs) x = count (mset ys) x" .
qed

lemma sort_key_classes:
  assumes "\<And>k. filter (\<lambda>x. f x = k) xs = filter (\<lambda>x. f x = k) ys"
  shows "sort_key f xs = sort_key f ys"
proof (rule properties_for_sort_key)
  show "mset (sort_key f ys) = mset xs"
    using mset_from_classes [of f xs ys] assms by simp
  show "sorted (map f (sort_key f ys))"
    by simp
  fix k
  have "filter (\<lambda>x. f k = f x) (sort_key f ys) = filter (\<lambda>x. f k = f x) ys"
    using sort_key_stable [of f "f k" ys] by (simp add: eq_commute)
  also have "\<dots> = filter (\<lambda>x. f k = f x) xs"
    using assms [of "f k"] by (simp add: eq_commute)
  finally show "filter (\<lambda>x. f k = f x) (sort_key f ys) = filter (\<lambda>x. f k = f x) xs" .
qed

lemma applicable_rules_classes:
  assumes "\<And>k. filter (\<lambda>r. pr_priority r = k) (filter pr_enabled (pricing_rules db1)) =
               filter (\<lambda>r. pr_priority r = k) (filter pr_enabled (pricing_rules db2))"
  shows "applicable_rules db1 court s e = applicable_rules db2 court s e"
proof -
  let ?P = "\<lambda>r. rule_applies (pr_rule_json r) \<lparr>tg_type = Some (CourtType_value (c_type court))\<rparr> s e"
  have "filter (\<lambda>r. - pr_priority r = k) (filter ?P (filter pr_enabled (pricing_rules db1))) =
        filter (\<lambda>r. - pr_priority r = k) (filter ?P (filter pr_enabled (pricing_rules db2)))" for k
  proof -
    have comm: "filter (\<lambda>r. - pr_priority r = k) (filter ?P rs) =
          filter ?P (filter (\<lambda>r. pr_priority r = - k) rs)" for rs
      by (induction rs) auto
    show ?thesis
      by (simp only: comm assms [of "- k"])
  qed
  then show ?thesis
    unfolding applicable_rules_def Let_def by (rule sort_key_classes)
qed


lemma compute_price_classes:
  assumes "\<And>k. filter (\<lambda>r. pr_priority r = k) (filter pr_enabled (pricing_rules db1)) =
               filter (\<lambda>r. pr_priority r = k) (filter pr_enabled (pricing_rules db2))"
  shows "compute_price db1 court s e eq co = compute_price db2 court s e eq co"
  using applicable_rules_classes [OF assms, of court s e]
  by (simp add: compute_price_def)

section \<open>Properties of the admission controller\<close>

subsection \<open>The handler reads the user table only to find the caller\<close>

lemma overlapping_bookings_users [simp]:
  "overlapping_bookings (db\<lparr>users := us\<rparr>) s e = overlapping_bookings db s e"
  by (simp add: overlapping_bookings_def)

lemma allocations_users [simp]: "allocations (db\<lparr>users := us\<rparr>) = allocations db"
  by (rule ext) (simp add: allocations_def)

lemma allocated_users [simp]: "allocated (db\<lparr>users := us\<rparr>) ov t r = allocated db ov t r"
  by (simp add: allocated_def)

lemma booked_qty_users [simp]: "booked_qty (db\<lparr>users := us\<rparr>) ov sku = booked_qty db ov sku"
  by (simp add: booked_qty_def)

lemma check_equipment_users [simp]:
  "check_equipment (db\<lparr>users := us\<rparr>) ov es = check_equipment db ov es"
  by (induction es) (simp_all add: Let_def split: option.splits)

lemma check_coach_users [simp]:
  "check_coach (db\<lparr>users := us\<rparr>) ov req = check_coach db ov req"
  by (simp add: check_coach_def split: option.splits)

lemma compute_price_users [simp]:
  "compute_price (db\<lparr>users := us\<rparr>) court s e eq co = compute_price db court s e eq co"
  by (simp add: compute_price_def applicable_rules_def)

lemma get_or_create_user_snd:
  "snd (get_or_create_user db email) =
     db\<lparr>users := (case find (\<lambda>u. u_email u = email) (users db) of
                     None \<Rightarrow> users db @ [\<lparr>u_id = next_id (map u_id (users db)),
                       u_name = takeWhile (\<lambda>c. c \<noteq> CHR ''@'') email,
                       u_email = email\<rparr>]
                   | Some u \<Rightarrow> users db)\<rparr>"
  by (simp add: get_or_create_user_def Let_def split: option.splits)

lemma get_or_create_user_email:
  "u_email (fst (get_or_create_user db email)) = email \<and>
   fst (get_or_create_user db email) \<in> set (users (snd (get_or_create_user db email)))"
  by (auto simp add: get_or_create_user_def Let_def find_Some_iff split: option.splits)

lemma create_booking_stages:
  "create_booking db now req =
     (let db1 = snd (get_or_create_user db (req_user_email req));
          user = fst (get_or_create_user db (req_user_email req));
          ov = overlapping_bookings db (req_start_ts req) (req_end_ts req)
      in case find (\<lambda>c. c_id c = req_court_id req) (courts db) of
           None \<Rightarrow> (Rejected CourtUnavailable, db1)
         | Some court \<Rightarrow>
             if \<not> c_enabled court then (Rejected CourtUnavailable, db1)
             else if allocated db ov ''court'' (IntRef (req_court_id req)) then
               (Waitlisted (next_id (map w_id (waitlist_entries db))),
                db1\<lparr>waitlist_entries := waitlist_entries db @
                  [\<lparr>w_id = next_id (map w_id (waitlist_entries db)),
                    w_slot_hash = SlotHash (req_start_ts req) (req_end_ts req)
                                    (Some (IntRef (req_court_id req))),
                    w_user_id = u_id user, w_created_at = now\<rparr>]\<rparr>)
             else
               (case check_equipment db ov (req_equipment req) of
                  Some err \<Rightarrow> (Rejected err, db1)
                | None \<Rightarrow>
                    (case check_coach db ov req of
                       Some err \<Rightarrow> (Rejected err, db1)
                     | None \<Rightarrow>
                         confirm_booking db1 now user req
                           (compute_price db court (req_start_ts req) (req_end_ts req)
                              (req_equipment req)
                              (case named_coach req of
                                 None \<Rightarrow> None
                               | Some cid \<Rightarrow> find (\<lambda>c. co_id c = cid) (coaches db))))))"
proof -
  obtain user db1 where g: "get_or_create_user db (req_user_email req) = (user, db1)"
    by (cases "get_or_create_user db (req_user_email req)")
  obtain us where db1: "db1 = db\<lparr>users := us\<rparr>"
    using get_or_create_user_snd [of db "req_user_email req"] g by simp
  show ?thesis
    unfolding create_booking_def g
    by (simp add: Let_def db1 split: option.splits)
qed


subsection \<open>Comparing \<^verbatim>\<open>HH:MM\<close> strings compares the minutes\<close>

lemma of_char_digit: "d < 10 \<Longrightarrow> of_char (digit d) = (48 + d :: nat)"
proof -
  assume "d < 10"
  then have "d \<in> {0, 1, 2, 3, 4, 5, 6, 7, 8, 9}" by auto
  then show ?thesis by (auto simp add: digit_def)
qed

lemma digit_less: "d < 10 \<Longrightarrow> d' < 10 \<Longrightarrow> ((of_char (digit d) :: nat) < of_char (digit d')) = (d < d')"
  by (simp add: of_char_digit)

lemma digit_eq: "d < 10 \<Longrightarrow> d' < 10 \<Longrightarrow> (digit d = digit d') = (d = d')"
  by (metis of_char_digit add_left_cancel)

lemma less_div_mod:
  fixes a b k :: nat
  shows "(a < b) = (a div k < b div k \<or> (a div k = b div k \<and> a mod k < b mod k))"
proof -
  consider "a div k < b div k" | "a div k = b div k" | "b div k < a div k"
    by linarith
  then show ?thesis
  proof cases
    case 1
    then have "\<not> b \<le> a"
      using div_le_mono [of b a k] by linarith
    with 1 show ?thesis by simp
  next
    case 2
    have "a = k * (a div k) + a mod k"
      by simp
    moreover have "b = k * (a div k) + b mod k"
      unfolding 2 by simp
    ultimately have "(a < b) = (a mod k < b mod k)"
      by (metis nat_add_left_cancel_less)
    with 2 show ?thesis by simp
  next
    case 3
    then have "\<not> a \<le> b"
      using div_le_mono [of a b k] by linarith
    with 3 show ?thesis by simp
  qed
qed

lemma eq_div_mod:
  fixes a b k :: nat
  shows "(a = b) = (a div k = b div k \<and> a mod k = b mod k)"
  by (metis div_mult_mod_eq)

lemma str_less_two_digits:
  assumes "a < 100" and "b < 100"
  shows "str_less (two_digits a @ xs) (two_digits b @ ys) = (a < b \<or> (a = b \<and> str_less xs ys))"
proof -
  have d: "a div 10 < 10" "b div 10 < 10" "a mod 10 < 10" "b mod 10 < 10"
    using assms by auto
  have "str_less (two_digits a @ xs) (two_digits b @ ys) =
      (a div 10 < b div 10 \<or> (a div 10 = b div 10 \<and>
         (a mod 10 < b mod 10 \<or> (a mod 10 = b mod 10 \<and> str_less xs ys))))"
    using d by (simp add: two_digits_def digit_less digit_eq)
  also have "\<dots> = (a < b \<or> (a = b \<and> str_less xs ys))"
    using less_div_mod [of a b 10] eq_div_mod [of a b 10] by blast
  finally show ?thesis .
qed

lemma str_less_hhmm:
  assumes "a < 6000" and "b < 6000"
  shows "str_less (hhmm a) (hhmm b) = (a < b)"
proof -
  have h: "a div 60 < 100" "b div 60 < 100" "a mod 60 < 100" "b mod 60 < 100"
    using assms by auto
  have "str_less (hhmm a) (hhmm b) =
      (a div 60 < b div 60 \<or> (a div 60 = b div 60 \<and> a mod 60 < b mod 60))"
    using str_less_two_digits [of "a div 60" "b div 60" "'':'' @ two_digits (a mod 60)" "'':'' @ two_digits (b mod 60)"]
      str_less_two_digits [of "a mod 60" "b mod 60" "[]" "[]"] h
    by (simp add: hhmm_def)
  then show ?thesis
    using less_div_mod [of a b 60] by simp
qed


subsection \<open>The stages of a booking attempt\<close>

lemma allocated_holds:
  "allocated db (overlapping_bookings db s e) rtype rid = holds_resource db s e rtype rid"
  by (auto simp add: allocated_def overlapping_bookings_def holds_resource_def allocations_def
      overlap_def list_ex_iff)

lemma confirm_booking_frame:
  "users (snd (confirm_booking db now user req price)) = users db"
  "waitlist_entries (snd (confirm_booking db now user req price)) = waitlist_entries db"
  "fst (confirm_booking db now user req price) =
     Confirmed (next_id (map b_id (bookings db))) (p_total price) price"
  by (simp_all add: confirm_booking_def Let_def)

lemma get_or_create_user_frame:
  "courts (snd (get_or_create_user db email)) = courts db"
  "bookings (snd (get_or_create_user db email)) = bookings db"
  "booking_allocations (snd (get_or_create_user db email)) = booking_allocations db"
  "waitlist_entries (snd (get_or_create_user db email)) = waitlist_entries db"
  "audit_events (snd (get_or_create_user db email)) = audit_events db"
  "pricing_rules (snd (get_or_create_user db email)) = pricing_rules db"
  by (simp_all add: get_or_create_user_snd)

lemma create_booking_unavailable:
  assumes "court_unavailable db (req_court_id req)"
  shows "create_booking db now req =
           (Rejected CourtUnavailable, snd (get_or_create_user db (req_user_email req)))"
  using assms
  by (cases "find (\<lambda>c. c_id c = req_court_id req) (courts db)")
    (simp_all add: create_booking_stages court_unavailable_def Let_def)

lemma create_booking_waitlisted:
  assumes "\<not> court_unavailable db (req_court_id req)"
    and "holds_resource db (req_start_ts req) (req_end_ts req) ''court'' (IntRef (req_court_id req))"
  shows "create_booking db now req =
           (Waitlisted (next_id (map w_id (waitlist_entries db))),
            snd (get_or_create_user db (req_user_email req))
              \<lparr>waitlist_entries := waitlist_entries db @
                 [\<lparr>w_id = next_id (map w_id (waitlist_entries db)),
                   w_slot_hash = SlotHash (req_start_ts req) (req_end_ts req)
                                   (Some (IntRef (req_court_id req))),
                   w_user_id = u_id (fst (get_or_create_user db (req_user_email req))),
                   w_created_at = now\<rparr>]\<rparr>)"
  using assms
  by (cases "find (\<lambda>c. c_id c = req_court_id req) (courts db)")
    (simp_all add: create_booking_stages court_unavailable_def allocated_holds Let_def)

lemma create_booking_equipment:
  assumes "\<not> court_unavailable db (req_court_id req)"
    and "\<not> holds_resource db (req_start_ts req) (req_end_ts req) ''court'' (IntRef (req_court_id req))"
    and "check_equipment db (overlapping_bookings db (req_start_ts req) (req_end_ts req))
           (req_equipment req) = Some err"
  shows "create_booking db now req =
           (Rejected err, snd (get_or_create_user db (req_user_email req)))"
  using assms
  by (cases "find (\<lambda>c. c_id c = req_court_id req) (courts db)")
    (simp_all add: create_booking_stages court_unavailable_def allocated_holds Let_def)

lemma create_booking_coach:
  assumes "\<not> court_unavailable db (req_court_id req)"
    and "\<not> holds_resource db (req_start_ts req) (req_end_ts req) ''court'' (IntRef (req_court_id req))"
    and "check_equipment db (overlapping_bookings db (req_start_ts req) (req_end_ts req))
           (req_equipment req) = None"
    and "check_coach db (overlapping_bookings db (req_start_ts req) (req_end_ts req)) req = Some err"
  shows "create_booking db now req =
           (Rejected err, snd (get_or_create_user db (req_user_email req)))"
  using assms
  by (cases "find (\<lambda>c. c_id c = req_court_id req) (courts db)")
    (simp_all add: create_booking_stages court_unavailable_def allocated_holds Let_def)

lemma create_booking_confirmed:
  assumes "\<not> court_unavailable db (req_court_id req)"
    and "\<not> holds_resource db (req_start_ts req) (req_end_ts req) ''court'' (IntRef (req_court_id req))"
    and "check_equipment db (overlapping_bookings db (req_start_ts req) (req_end_ts req))
           (req_equipment req) = None"
    and "check_coach db (overlapping_bookings db (req_start_ts req) (req_end_ts req)) req = None"
  shows "is_confirmed (fst (create_booking db now req))"
  using assms
  by (cases "find (\<lambda>c. c_id c = req_court_id req) (courts db)")
    (simp_all add: create_booking_stages court_unavailable_def allocated_holds Let_def
      confirm_booking_frame)

lemma create_booking_users:
  "users (snd (create_booking db now req)) = users (snd (get_or_create_user db (req_user_email req)))"
  by (simp add: create_booking_stages Let_def confirm_booking_frame split: option.splits)

lemma create_booking_not_confirmed:
  assumes "\<not> is_confirmed (fst (create_booking db now req))"
  shows "bookings (snd (create_booking db now req)) = bookings db \<and>
         booking_allocations (snd (create_booking db now req)) = booking_allocations db \<and>
         audit_events (snd (create_booking db now req)) = audit_events db"
  using assms
  by (simp add: create_booking_stages Let_def confirm_booking_frame get_or_create_user_frame
      split: option.splits if_splits)

text \<open>
  \<^bold>\<open>C10\<close>. When no user row has the request's email, the handler appends one, named after
  the part of the email before the first \<^verbatim>\<open>@\<close>, and commits it before it looks at the
  court: the row is in the database the handler leaves behind whatever the outcome is,
  Confirmed, Waitlisted or Rejected.
\<close>

theorem create_booking_creates_user:
  "find (\<lambda>u. u_email u = req_user_email req) (users db) = None \<Longrightarrow>
   users (snd (create_booking db now req)) =
     users db @ [\<lparr>u_id = next_id (map u_id (users db)),
                   u_name = takeWhile (\<lambda>c. c \<noteq> CHR ''@'') (req_user_email req),
                   u_email = req_user_email req\<rparr>]"
  by (simp add: create_booking_users get_or_create_user_snd)


subsection \<open>Cancellation\<close>

lemma next_waitlist_bookings [simp]:
  "next_waitlist (db\<lparr>bookings := bs\<rparr>) h = next_waitlist db h"
  by (simp add: next_waitlist_def)

lemma cancel_slot_hash_cancelled [simp]:
  "cancel_slot_hash (db\<lparr>bookings := bs\<rparr>) (b\<lparr>b_status := st\<rparr>) = cancel_slot_hash db b"
  by (simp add: cancel_slot_hash_def allocations_def)

lemma next_waitlist_Some:
  assumes "next_waitlist db h = Some w"
  shows "w \<in> set (waitlist_entries db) \<and> w_slot_hash w = h \<and>
         (\<forall>w' \<in> set (waitlist_entries db). w_slot_hash w' = h \<longrightarrow> w_created_at w \<le> w_created_at w')"
proof -
  let ?xs = "sort_key w_created_at (filter (\<lambda>w. w_slot_hash w = h) (waitlist_entries db))"
  obtain rest where xs: "?xs = w # rest"
    using assms by (auto simp add: next_waitlist_def split: list.splits)
  have "sorted (map w_created_at ?xs)"
    by simp
  then have le: "\<forall>x \<in> set ?xs. w_created_at w \<le> w_created_at x"
    unfolding xs by auto
  have "w \<in> set ?xs"
    unfolding xs by simp
  then show ?thesis
    using le by auto
qed

lemma next_waitlist_None:
  assumes "next_waitlist db h = None"
  shows "\<forall>w \<in> set (waitlist_entries db). w_slot_hash w \<noteq> h"
proof -
  have "sort_key w_created_at (filter (\<lambda>w. w_slot_hash w = h) (waitlist_entries db)) = []"
    using assms by (simp add: next_waitlist_def split: list.splits)
  then have "set (filter (\<lambda>w. w_slot_hash w = h) (waitlist_entries db)) = {}"
    by (metis set_sort set_empty)
  then show ?thesis
    by auto
qed

lemma cancel_booking_outcome:
  assumes "find (\<lambda>b. b_id b = bid) (bookings db) = Some booking"
  shows "fst (cancel_booking db bid) =
           Cancelled (map_option w_user_id (next_waitlist db (cancel_slot_hash db booking)))"
    and "bookings (snd (cancel_booking db bid)) =
           map (\<lambda>b. if b_id b = bid then b\<lparr>b_status := ''cancelled''\<rparr> else b) (bookings db)"
    and "booking_allocations (snd (cancel_booking db bid)) = booking_allocations db"
    and "waitlist_entries (snd (cancel_booking db bid)) = waitlist_entries db"
  using assms by (simp_all add: cancel_booking_def Let_def split: option.splits)

lemma find_map_cancel:
  "find (\<lambda>b. b_id b = bid) bs = Some booking \<Longrightarrow>
   find (\<lambda>b. b_id b = bid)
     (map (\<lambda>b. if b_id b = bid then b\<lparr>b_status := ''cancelled''\<rparr> else b) bs) =
   Some (booking\<lparr>b_status := ''cancelled''\<rparr>)"
  by (induction bs) (auto split: if_splits)

lemma filter_confirmed_cancel:
  "filter (\<lambda>b. b_status b = ''confirmed'')
     (map (\<lambda>b. if b_id b = bid then b\<lparr>b_status := ''cancelled''\<rparr> else b) bs) =
   filter (\<lambda>b. b_status b = ''confirmed'' \<and> b_id b \<noteq> bid) bs"
  by (induction bs) auto

lemma waiting_db_find: "find (\<lambda>b. b_id b = 1) (bookings waiting_db) = Some alice_booking"
  by (simp add: waiting_db_def booked_db_def alice_booking_def)

subsection \<open>Booking attempts\<close>

lemmas sample_defs = booked_db_def seeded_db_def empty_db_def court_1_def court_3_def court_4_def
  alice_booking_def bob_request_def rackets_def

lemma booked_db_courts:
  "court_unavailable (booked_db c) 1 = False"
  "court_unavailable (booked_db c) 4 = True"
  "court_unavailable (booked_db c) 99 = True"
  "court_unavailable seeded_db 1 = False"
  "court_unavailable seeded_db 99 = True"
  by (simp_all add: court_unavailable_def sample_defs)

lemma booked_db_holds:
  "holds_resource (booked_db c) mon_1900 mon_2000 ''court'' (IntRef c)"
  "c \<noteq> 1 \<Longrightarrow> \<not> holds_resource (booked_db c) mon_1900 mon_2000 ''court'' (IntRef 1)"
  "\<not> holds_resource seeded_db s e rtype rid"
  by (simp_all add: holds_resource_def overlap_def sample_defs time_defs resource_id_def)

lemma bob_is_new:
  "find (\<lambda>u. u_email u = ''bob@example.com'') (users (booked_db c)) = None"
  "find (\<lambda>u. u_email u = ''bob@example.com'') (users seeded_db) = None"
  by (simp_all add: sample_defs)

theorem create_booking_creates_user_witness:
  "fst (create_booking (booked_db 1) 7 bob_request) = Waitlisted 1 \<and>
   users (snd (create_booking (booked_db 1) 7 bob_request)) =
     [\<lparr>u_id = 1, u_name = ''alice'', u_email = ''alice@example.com''\<rparr>,
      \<lparr>u_id = 2, u_name = ''bob'', u_email = ''bob@example.com''\<rparr>] \<and>
   fst (create_booking seeded_db 7 (bob_request\<lparr>req_court_id := 99\<rparr>)) = Rejected CourtUnavailable \<and>
   users (snd (create_booking seeded_db 7 (bob_request\<lparr>req_court_id := 99\<rparr>))) =
     [\<lparr>u_id = 1, u_name = ''bob'', u_email = ''bob@example.com''\<rparr>]"
proof -
  have w: "fst (create_booking (booked_db 1) 7 bob_request) = Waitlisted 1"
    using create_booking_waitlisted [of "booked_db 1" bob_request 7] booked_db_courts(1) [of 1]
      booked_db_holds(1) [of 1]
    by (simp add: bob_request_def booked_db_def seeded_db_def empty_db_def next_id_def)
  have r: "fst (create_booking seeded_db 7 (bob_request\<lparr>req_court_id := 99\<rparr>)) =
      Rejected CourtUnavailable"
    using create_booking_unavailable [of seeded_db "bob_request\<lparr>req_court_id := 99\<rparr>" 7]
      booked_db_courts(5)
    by (simp add: bob_request_def)
  have u1: "users (snd (create_booking (booked_db 1) 7 bob_request)) =
     [\<lparr>u_id = 1, u_name = ''alice'', u_email = ''alice@example.com''\<rparr>,
      \<lparr>u_id = 2, u_name = ''bob'', u_email = ''bob@example.com''\<rparr>]"
    using create_booking_creates_user [of bob_request "booked_db 1" 7] bob_is_new(1) [of 1]
    by (simp add: bob_request_def booked_db_def next_id_def)
  have u2: "users (snd (create_booking seeded_db 7 (bob_request\<lparr>req_court_id := 99\<rparr>))) =
     [\<lparr>u_id = 1, u_name = ''bob'', u_email = ''bob@example.com''\<rparr>]"
    using create_booking_creates_user [of "bob_request\<lparr>req_court_id := 99\<rparr>" seeded_db 7]
      bob_is_new(2)
    by (simp add: bob_request_def seeded_db_def empty_db_def next_id_def)
  show ?thesis
    using w r u1 u2 by simp
qed


lemma create_booking_is_confirmed:
  "is_confirmed (fst (create_booking db now req)) =
     (\<not> court_unavailable db (req_court_id req) \<and>
      \<not> holds_resource db (req_start_ts req) (req_end_ts req) ''court'' (IntRef (req_court_id req)) \<and>
      check_equipment db (overlapping_bookings db (req_start_ts req) (req_end_ts req))
        (req_equipment req) = None \<and>
      check_coach db (overlapping_bookings db (req_start_ts req) (req_end_ts req)) req = None)"
proof (cases "court_unavailable db (req_court_id req)")
  case True
  then show ?thesis by (simp add: create_booking_unavailable)
next
  case avail: False
  show ?thesis
  proof (cases "holds_resource db (req_start_ts req) (req_end_ts req) ''court''
      (IntRef (req_court_id req))")
    case True
    then show ?thesis using avail by (simp add: create_booking_waitlisted)
  next
    case free: False
    show ?thesis
    proof (cases "check_equipment db (overlapping_bookings db (req_start_ts req) (req_end_ts req))
        (req_equipment req)")
      case (Some err)
      then show ?thesis using avail free by (simp add: create_booking_equipment)
    next
      case eq: None
      show ?thesis
      proof (cases "check_coach db (overlapping_bookings db (req_start_ts req) (req_end_ts req)) req")
        case (Some err)
        then show ?thesis using avail free eq by (simp add: create_booking_coach)
      next
        case None
        then show ?thesis using avail free eq by (simp add: create_booking_confirmed)
      qed
    qed
  qed
qed

text \<open>
  \<^bold>\<open>C1\<close> (as amended). For a request whose court exists and is enabled: if a confirmed
  reservation whose interval overlaps the requested one has an allocation on that court,
  the handler appends one waitlist entry for the slot hash of the request and the
  caller's user row, returns Waitlisted with the entry's key, and writes no booking,
  allocation or audit event. Neither the equipment nor the coach is validated on this
  path; the price, which reads both, is computed before the conflict test and thrown
  away. The outcome and the database are the same whatever equipment lines and coach
  the request carries.
\<close>

theorem occupied_court_waitlisted:
  assumes "\<not> court_unavailable db (req_court_id req)"
    and "holds_resource db (req_start_ts req) (req_end_ts req) ''court'' (IntRef (req_court_id req))"
  shows "\<exists>user. u_email user = req_user_email req \<and>
           user \<in> set (users (snd (create_booking db now req))) \<and>
           fst (create_booking db now req) = Waitlisted (next_id (map w_id (waitlist_entries db))) \<and>
           waitlist_entries (snd (create_booking db now req)) =
             waitlist_entries db @
               [\<lparr>w_id = next_id (map w_id (waitlist_entries db)),
                 w_slot_hash = SlotHash (req_start_ts req) (req_end_ts req)
                                 (Some (IntRef (req_court_id req))),
                 w_user_id = u_id user, w_created_at = now\<rparr>] \<and>
           bookings (snd (create_booking db now req)) = bookings db \<and>
           booking_allocations (snd (create_booking db now req)) = booking_allocations db \<and>
           audit_events (snd (create_booking db now req)) = audit_events db \<and>
           (\<forall>eq co. create_booking db now (req\<lparr>req_equipment := eq, req_coach_id := co\<rparr>) =
                     create_booking db now req)"
proof -
  let ?user = "fst (get_or_create_user db (req_user_email req))"
  note w = create_booking_waitlisted [OF assms, of now]
  have other: "create_booking db now (req\<lparr>req_equipment := eq, req_coach_id := co\<rparr>) =
      create_booking db now req" for eq co
    using create_booking_waitlisted [of db "req\<lparr>req_equipment := eq, req_coach_id := co\<rparr>" now]
      assms w by simp
  have "u_email ?user = req_user_email req \<and>
      ?user \<in> set (users (snd (create_booking db now req)))"
    using get_or_create_user_email [of db "req_user_email req"] by (simp add: w)
  then show ?thesis
    using other by (intro exI [of _ ?user]) (simp add: w get_or_create_user_frame)
qed

theorem occupied_court_waitlisted_witness:
  "fst (create_booking (booked_db 1) 7 bob_request) = Waitlisted 1 \<and>
   waitlist_entries (snd (create_booking (booked_db 1) 7 bob_request)) =
     [\<lparr>w_id = 1, w_slot_hash = SlotHash mon_1900 mon_2000 (Some (IntRef 1)), w_user_id = 2,
       w_created_at = 7\<rparr>] \<and>
   create_booking (booked_db 1) 7
     (bob_request\<lparr>req_equipment := [rackets 50], req_coach_id := Some 2\<rparr>) =
   create_booking (booked_db 1) 7 bob_request"
proof -
  have a: "\<not> court_unavailable (booked_db 1) (req_court_id bob_request)"
    using booked_db_courts(1) [of 1] by (simp add: bob_request_def)
  have h: "holds_resource (booked_db 1) (req_start_ts bob_request) (req_end_ts bob_request)
      ''court'' (IntRef (req_court_id bob_request))"
    using booked_db_holds(1) [of 1] by (simp add: bob_request_def)
  have u: "users (snd (create_booking (booked_db 1) 7 bob_request)) =
     [\<lparr>u_id = 1, u_name = ''alice'', u_email = ''alice@example.com''\<rparr>,
      \<lparr>u_id = 2, u_name = ''bob'', u_email = ''bob@example.com''\<rparr>]"
    using create_booking_users [of "booked_db 1" 7 bob_request] bob_is_new(1) [of 1]
    by (simp add: get_or_create_user_snd bob_request_def booked_db_def next_id_def)
  have wl: "waitlist_entries (booked_db 1) = []"
    by (simp add: sample_defs)
  from occupied_court_waitlisted [OF a h, of 7]
  obtain user where user: "u_email user = ''bob@example.com''"
      "user \<in> set (users (snd (create_booking (booked_db 1) 7 bob_request)))"
    and out: "fst (create_booking (booked_db 1) 7 bob_request) = Waitlisted 1"
    and entries: "waitlist_entries (snd (create_booking (booked_db 1) 7 bob_request)) =
      [\<lparr>w_id = 1, w_slot_hash = SlotHash mon_1900 mon_2000 (Some (IntRef 1)),
        w_user_id = u_id user, w_created_at = 7\<rparr>]"
    and same: "\<forall>eq co. create_booking (booked_db 1) 7
        (bob_request\<lparr>req_equipment := eq, req_coach_id := co\<rparr>) =
        create_booking (booked_db 1) 7 bob_request"
    by (auto simp add: wl next_id_def bob_request_def)
  have "u_id user = 2"
    using user by (auto simp add: u)
  then show ?thesis
    using out entries same by simp
qed

text \<open>
  The claim as stated, for every request, fails when the court has been disabled after
  it was booked: the request is rejected with \<^verbatim>\<open>'court unavailable'\<close> and nobody is
  put on the waitlist.
\<close>

theorem disabled_court_not_waitlisted:
  "holds_resource (booked_db 4) mon_1900 mon_2000 ''court'' (IntRef 4) \<and>
   fst (create_booking (booked_db 4) 7 (bob_request\<lparr>req_court_id := 4\<rparr>)) =
     Rejected CourtUnavailable \<and>
   waitlist_entries (snd (create_booking (booked_db 4) 7 (bob_request\<lparr>req_court_id := 4\<rparr>))) = []"
  using booked_db_holds(1) [of 4] booked_db_courts(2) [of 4]
  by (simp add: create_booking_unavailable get_or_create_user_frame bob_request_def)
    (simp add: sample_defs)

text \<open>
  \<^bold>\<open>C4\<close> (as amended). A request that names an unknown or disabled court is rejected
  with \<^verbatim>\<open>'court unavailable'\<close>; no booking, allocation, waitlist entry or audit event is
  written. The user table is unchanged when the email is known and otherwise gains the
  row of the caller, which was committed before the court was looked up.
\<close>

theorem unavailable_court_rejected:
  assumes "court_unavailable db (req_court_id req)"
  shows "fst (create_booking db now req) = Rejected CourtUnavailable \<and>
         bookings (snd (create_booking db now req)) = bookings db \<and>
         booking_allocations (snd (create_booking db now req)) = booking_allocations db \<and>
         waitlist_entries (snd (create_booking db now req)) = waitlist_entries db \<and>
         audit_events (snd (create_booking db now req)) = audit_events db \<and>
         users (snd (create_booking db now req)) =
           (case find (\<lambda>u. u_email u = req_user_email req) (users db) of
              None \<Rightarrow> users db @ [\<lparr>u_id = next_id (map u_id (users db)),
                                    u_name = takeWhile (\<lambda>c. c \<noteq> CHR ''@'') (req_user_email req),
                                    u_email = req_user_email req\<rparr>]
            | Some u \<Rightarrow> users db)"
  by (simp add: create_booking_unavailable [OF assms] get_or_create_user_frame
      get_or_create_user_snd)


theorem unavailable_court_rejected_witness:
  "fst (create_booking (booked_db 1) 7 (bob_request\<lparr>req_court_id := 99\<rparr>)) =
     Rejected CourtUnavailable \<and>
   bookings (snd (create_booking (booked_db 1) 7 (bob_request\<lparr>req_court_id := 99\<rparr>))) =
     [alice_booking] \<and>
   map u_email (users (snd (create_booking (booked_db 1) 7
     (bob_request\<lparr>req_court_id := 99, req_user_email := ''alice@example.com''\<rparr>)))) =
     [''alice@example.com'']"
  using unavailable_court_rejected [of "booked_db 1" "bob_request\<lparr>req_court_id := 99\<rparr>" 7]
    unavailable_court_rejected [of "booked_db 1"
      "bob_request\<lparr>req_court_id := 99, req_user_email := ''alice@example.com''\<rparr>" 7]
    booked_db_courts(3) [of 1]
  by (simp add: bob_request_def booked_db_def)

lemma reversed_interval_checks:
  "check_equipment seeded_db ov [] = None"
  "check_coach seeded_db ov (bob_request\<lparr>req_start_ts := mon_2000, req_end_ts := mon_1900\<rparr>) = None"
  by (simp_all add: check_coach_def named_coach_def bob_request_def)

text \<open>
  The claim as stated fails twice. The handler never compares the two ends of the
  interval: a request from 20:00 back to 19:00 is confirmed. And a rejected request
  of a new caller for the unknown court 99 leaves a user row behind.
\<close>

theorem validation_failures_not_clean:
  "req_end_ts (bob_request\<lparr>req_start_ts := mon_2000, req_end_ts := mon_1900\<rparr>) \<le>
     req_start_ts (bob_request\<lparr>req_start_ts := mon_2000, req_end_ts := mon_1900\<rparr>) \<and>
   is_confirmed (fst (create_booking seeded_db 7
     (bob_request\<lparr>req_start_ts := mon_2000, req_end_ts := mon_1900\<rparr>))) \<and>
   court_unavailable seeded_db 99 \<and>
   fst (create_booking seeded_db 7 (bob_request\<lparr>req_court_id := 99\<rparr>)) = Rejected CourtUnavailable \<and>
   users seeded_db = [] \<and>
   users (snd (create_booking seeded_db 7 (bob_request\<lparr>req_court_id := 99\<rparr>))) =
     [\<lparr>u_id = 1, u_name = ''bob'', u_email = ''bob@example.com''\<rparr>]"
proof -
  have c: "is_confirmed (fst (create_booking seeded_db 7
     (bob_request\<lparr>req_start_ts := mon_2000, req_end_ts := mon_1900\<rparr>)))"
    using booked_db_courts(4) booked_db_holds(3) reversed_interval_checks
    by (simp add: create_booking_is_confirmed) (simp add: bob_request_def)
  have r: "fst (create_booking seeded_db 7 (bob_request\<lparr>req_court_id := 99\<rparr>)) =
      Rejected CourtUnavailable"
    using booked_db_courts(5) by (simp add: create_booking_unavailable bob_request_def)
  have u: "users (snd (create_booking seeded_db 7 (bob_request\<lparr>req_court_id := 99\<rparr>))) =
     [\<lparr>u_id = 1, u_name = ''bob'', u_email = ''bob@example.com''\<rparr>]"
    using bob_is_new(2)
    by (simp add: create_booking_users get_or_create_user_snd bob_request_def)
      (simp add: seeded_db_def empty_db_def next_id_def)
  show ?thesis
    using c r u booked_db_courts(5)
    by (simp add: time_defs) (simp add: seeded_db_def empty_db_def)
qed

lemma check_equipment_append:
  "check_equipment db ov (pre @ es) =
     (case check_equipment db ov pre of None \<Rightarrow> check_equipment db ov es | Some err \<Rightarrow> Some err)"
  by (induction pre) (simp_all add: Let_def split: option.splits)

lemma check_equipment_line:
  assumes "find (\<lambda>i. ei_sku i = e_sku eline) (equipment_items db) = Some item"
    and "ei_active item"
    and "quantity_of eline > ei_total_quantity item - booked_qty db ov (e_sku eline)"
  shows "check_equipment db ov (eline # es) =
           Some (InsufficientAvailability (e_sku eline) (quantity_of eline)
                   (ei_total_quantity item - booked_qty db ov (e_sku eline)))"
  using assms by (simp add: Let_def)

lemma check_equipment_fails:
  assumes "eline \<in> set es"
    and "find (\<lambda>i. ei_sku i = e_sku eline) (equipment_items db) = Some item"
    and "quantity_of eline > ei_total_quantity item - booked_qty db ov (e_sku eline)"
  shows "check_equipment db ov es \<noteq> None"
  using assms by (induction es) (auto simp add: Let_def split: option.splits)

text \<open>
  The handler's sum and the allocated quantity. A SKU that is not a numeric literal is
  read back from the column as the text that was written, and the two agree. A SKU that
  is a numeric literal is read back as a number, which no string equals: the handler
  never counts it.
\<close>

lemma of_number_not_text: "of_number r \<noteq> SkuRef s"
  by (simp add: of_number_def)

lemma integer_column_text:
  "(integer_column x = SkuRef s) = (x = SkuRef s \<and> numeric_literal s = None)"
  by (cases x) (auto simp add: of_number_not_text split: option.splits)

lemma booked_qty_sum:
  "booked_qty db ov sku =
     sum_list (map (\<lambda>b. sum_list (map ba_quantity
                  (filter (\<lambda>a. ba_booking_id a = b_id b \<and> ba_resource_type a = ''equipment'' \<and>
                                resource_id a = SkuRef sku)
                     (booking_allocations db)))) ov)"
  by (induction ov) (simp_all add: booked_qty_def allocations_def conj_commute conj_left_commute)

lemma booked_qty_allocated:
  assumes "numeric_literal sku = None"
  shows "booked_qty db (overlapping_bookings db s e) sku = allocated_quantity db s e sku"
proof -
  have "(resource_id a = SkuRef sku) = (ba_resource_id a = SkuRef sku)" for a
    using assms by (simp add: resource_id_def integer_column_text)
  moreover have "overlapping_bookings db s e =
      filter (\<lambda>b. b_status b = ''confirmed'' \<and> overlap (b_start_ts b) (b_end_ts b) s e) (bookings db)"
    unfolding overlapping_bookings_def
    by (rule filter_cong) (auto simp add: overlap_def)
  ultimately show ?thesis
    by (simp add: booked_qty_sum allocated_quantity_def)
qed

lemma booked_qty_numeric:
  assumes "numeric_literal sku \<noteq> None"
  shows "booked_qty db ov sku = 0"
proof -
  have "resource_id a \<noteq> SkuRef sku" for a
    using assms by (simp add: resource_id_def integer_column_text)
  then show ?thesis
    by (simp add: booked_qty_def)
qed

text \<open>
  \<^bold>\<open>C5\<close> (as amended). Take an equipment line whose SKU the allocation column keeps as
  text (a SKU that is not a numeric literal) and that asks for more than the SKU's total
  quantity minus the quantity already allocated by confirmed overlapping reservations.
  A request with such a line is never confirmed and writes no booking and no
  allocation. When the court exists, is enabled and free, the lines before it pass and
  the SKU is active, the handler rejects the request with that line's SKU, requested
  quantity and available quantity.
\<close>

theorem insufficient_equipment_rejected:
  "(eline \<in> set (req_equipment req) \<and> numeric_literal (e_sku eline) = None \<and>
    find (\<lambda>i. ei_sku i = e_sku eline) (equipment_items db) = Some item \<and>
    quantity_of eline > ei_total_quantity item -
      allocated_quantity db (req_start_ts req) (req_end_ts req) (e_sku eline) \<longrightarrow>
      \<not> is_confirmed (fst (create_booking db now req)) \<and>
      bookings (snd (create_booking db now req)) = bookings db \<and>
      booking_allocations (snd (create_booking db now req)) = booking_allocations db) \<and>
   (\<not> court_unavailable db (req_court_id req) \<and>
    \<not> holds_resource db (req_start_ts req) (req_end_ts req) ''court'' (IntRef (req_court_id req)) \<and>
    req_equipment req = pre @ eline # post \<and>
    check_equipment db (overlapping_bookings db (req_start_ts req) (req_end_ts req)) pre = None \<and>
    numeric_literal (e_sku eline) = None \<and>
    find (\<lambda>i. ei_sku i = e_sku eline) (equipment_items db) = Some item \<and> ei_active item \<and>
    quantity_of eline > ei_total_quantity item -
      allocated_quantity db (req_start_ts req) (req_end_ts req) (e_sku eline) \<longrightarrow>
      fst (create_booking db now req) =
        Rejected (InsufficientAvailability (e_sku eline) (quantity_of eline)
          (ei_total_quantity item -
           allocated_quantity db (req_start_ts req) (req_end_ts req) (e_sku eline))))"
proof (intro conjI impI)
  let ?ov = "overlapping_bookings db (req_start_ts req) (req_end_ts req)"
  let ?held = "allocated_quantity db (req_start_ts req) (req_end_ts req) (e_sku eline)"
  assume a: "eline \<in> set (req_equipment req) \<and> numeric_literal (e_sku eline) = None \<and>
    find (\<lambda>i. ei_sku i = e_sku eline) (equipment_items db) = Some item \<and>
    quantity_of eline > ei_total_quantity item - ?held"
  then have "booked_qty db ?ov (e_sku eline) = ?held"
    by (simp add: booked_qty_allocated)
  then have "check_equipment db ?ov (req_equipment req) \<noteq> None"
    using a check_equipment_fails [of eline "req_equipment req" db item ?ov] by simp
  then have n: "\<not> is_confirmed (fst (create_booking db now req))"
    by (simp add: create_booking_is_confirmed)
  then show "\<not> is_confirmed (fst (create_booking db now req))" .
  show "bookings (snd (create_booking db now req)) = bookings db"
    using create_booking_not_confirmed [OF n] by simp
  show "booking_allocations (snd (create_booking db now req)) = booking_allocations db"
    using create_booking_not_confirmed [OF n] by simp
next
  let ?ov = "overlapping_bookings db (req_start_ts req) (req_end_ts req)"
  let ?held = "allocated_quantity db (req_start_ts req) (req_end_ts req) (e_sku eline)"
  assume a: "\<not> court_unavailable db (req_court_id req) \<and>
    \<not> holds_resource db (req_start_ts req) (req_end_ts req) ''court'' (IntRef (req_court_id req)) \<and>
    req_equipment req = pre @ eline # post \<and>
    check_equipment db ?ov pre = None \<and>
    numeric_literal (e_sku eline) = None \<and>
    find (\<lambda>i. ei_sku i = e_sku eline) (equipment_items db) = Some item \<and> ei_active item \<and>
    quantity_of eline > ei_total_quantity item - ?held"
  then have held: "booked_qty db ?ov (e_sku eline) = ?held"
    by (simp add: booked_qty_allocated)
  have "check_equipment db ?ov (req_equipment req) =
      Some (InsufficientAvailability (e_sku eline) (quantity_of eline)
        (ei_total_quantity item - ?held))"
    using a held check_equipment_line [of eline db item ?ov post]
    by (simp add: check_equipment_append)
  then show "fst (create_booking db now req) =
      Rejected (InsufficientAvailability (e_sku eline) (quantity_of eline)
        (ei_total_quantity item - ?held))"
    using a by (simp add: create_booking_equipment)
qed

lemma allocated_samples:
  "allocated_quantity (booked_db c) mon_1900 mon_2000 ''racket'' = 8"
  "allocated_quantity numbered_db mon_1900 mon_2000 ''123'' = 8"
  by (simp_all add: allocated_quantity_def overlap_def numbered_db_def sample_defs time_defs)

lemma booked_rackets:
  "booked_qty (booked_db c) (overlapping_bookings (booked_db c) mon_1900 mon_2000) ''racket'' = 8"
  by (simp add: booked_qty_def overlapping_bookings_def allocations_def sample_defs time_defs
      resource_id_def numeric_literal_samples)

lemma find_racket:
  "find (\<lambda>i. ei_sku i = ''racket'') (equipment_items (booked_db c)) =
     Some \<lparr>ei_id = 1, ei_sku = ''racket'', ei_total_quantity = 10, ei_active = True\<rparr>"
  by (simp add: sample_defs)

theorem insufficient_equipment_rejected_witness:
  "fst (create_booking (booked_db 3) 7 (bob_request\<lparr>req_equipment := [rackets 2, rackets 5]\<rparr>)) =
     Rejected (InsufficientAvailability ''racket'' 5 2) \<and>
   bookings (snd (create_booking (booked_db 3) 7
     (bob_request\<lparr>req_equipment := [rackets 2, rackets 5]\<rparr>))) = [alice_booking]"
proof -
  let ?req = "bob_request\<lparr>req_equipment := [rackets 2, rackets 5]\<rparr>"
  let ?item = "\<lparr>ei_id = 1, ei_sku = ''racket'', ei_total_quantity = 10, ei_active = True\<rparr>"
  have r: "req_start_ts ?req = mon_1900" "req_end_ts ?req = mon_2000" "req_court_id ?req = 1"
    "req_equipment ?req = [rackets 2] @ rackets 5 # []"
    by (simp_all add: bob_request_def)
  have pre: "check_equipment (booked_db 3) (overlapping_bookings (booked_db 3) mon_1900 mon_2000)
      [rackets 2] = None"
    using booked_rackets [of 3] find_racket [of 3]
    by (simp add: Let_def) (simp add: rackets_def quantity_of_def)
  have q: "e_sku (rackets 5) = ''racket''" "quantity_of (rackets 5) = 5"
    by (simp_all add: rackets_def quantity_of_def)
  have b: "bookings (booked_db 3) = [alice_booking]"
    by (simp add: booked_db_def)
  show ?thesis
    using insufficient_equipment_rejected [of "rackets 5" ?req "booked_db 3" ?item 7
        "[rackets 2]" "[]"]
      booked_db_courts(1) [of 3] booked_db_holds(2) [of 3] pre allocated_samples(1) [of 3]
      find_racket [of 3] numeric_literal_samples(1)
    by (simp add: r q b)
qed

lemma numbered_db_facts:
  "court_unavailable numbered_db 1 = False"
  "\<not> holds_resource numbered_db mon_1900 mon_2000 ''court'' (IntRef 1)"
  "find (\<lambda>i. ei_sku i = ''123'') (equipment_items numbered_db) =
     Some \<lparr>ei_id = 1, ei_sku = ''123'', ei_total_quantity = 10, ei_active = True\<rparr>"
  by (simp_all add: court_unavailable_def holds_resource_def overlap_def numbered_db_def
      sample_defs time_defs resource_id_def)

text \<open>
  The claim as stated fails in two ways. The court is checked first: a request for 5
  rackets with 2 available is put on the waitlist when the court is taken. And a SKU
  that reads as a number is never counted: with 8 of the 10 units of SKU \<^verbatim>\<open>123\<close>
  allocated in the same hour, a request for 5 more is confirmed.
\<close>

theorem equipment_shortage_not_reported:
  "allocated_quantity (booked_db 1) mon_1900 mon_2000 ''racket'' = 8 \<and>
   quantity_of (rackets 5) = 5 \<and>
   fst (create_booking (booked_db 1) 7 (bob_request\<lparr>req_equipment := [rackets 5]\<rparr>)) =
     Waitlisted 1 \<and>
   allocated_quantity numbered_db mon_1900 mon_2000 ''123'' = 8 \<and>
   is_confirmed (fst (create_booking numbered_db 7
     (bob_request\<lparr>req_equipment :=
        [\<lparr>e_sku = ''123'', e_quantity = Some 5, e_fee = None, e_meta_fee = None\<rparr>]\<rparr>)))"
proof -
  let ?req = "bob_request\<lparr>req_equipment :=
        [\<lparr>e_sku = ''123'', e_quantity = Some 5, e_fee = None, e_meta_fee = None\<rparr>]\<rparr>"
  have w: "fst (create_booking (booked_db 1) 7 (bob_request\<lparr>req_equipment := [rackets 5]\<rparr>)) =
      Waitlisted 1"
    using booked_db_courts(1) [of 1] booked_db_holds(1) [of 1]
    by (simp add: create_booking_waitlisted bob_request_def)
      (simp add: sample_defs next_id_def)
  have r: "req_start_ts ?req = mon_1900" "req_end_ts ?req = mon_2000" "req_court_id ?req = 1"
    "req_coach_id ?req = None"
    by (simp_all add: bob_request_def)
  have z: "booked_qty numbered_db (overlapping_bookings numbered_db mon_1900 mon_2000) ''123'' = 0"
    using numeric_literal_samples(2) by (simp add: booked_qty_numeric)
  have e: "check_equipment numbered_db (overlapping_bookings numbered_db mon_1900 mon_2000)
      (req_equipment ?req) = None"
    using z numbered_db_facts(3) by (simp add: Let_def quantity_of_def)
  have c: "check_coach numbered_db (overlapping_bookings numbered_db mon_1900 mon_2000) ?req = None"
    by (simp add: check_coach_def named_coach_def r)
  have "is_confirmed (fst (create_booking numbered_db 7 ?req))"
    using numbered_db_facts(1,2) e c by (simp add: create_booking_is_confirmed r)
  then show ?thesis
    using w allocated_samples(1) [of 1] allocated_samples(2)
    by (simp add: quantity_of_def rackets_def)
qed

subsection \<open>The coach checks\<close>

lemma within_window_minutes:
  assumes "s div 86400 = e div 86400" and "time_of e mod 60 = 0"
  shows "within_window s e ws we = (ws \<le> time_of s div 60 \<and> time_of e div 60 \<le> we)"
proof -
  define ts where "ts = time_of s"
  define te where "te = time_of e"
  have s: "s = (s div 86400) * 86400 + int ts"
    by (simp add: ts_def time_of_def)
  have e: "e = (s div 86400) * 86400 + int te"
    unfolding assms(1) by (simp add: te_def time_of_def)
  have a: "((s div 86400) * 86400 + int ws * 60 \<le> s) = (ws * 60 \<le> ts)"
    using s by linarith
  have b: "(e \<le> (s div 86400) * 86400 + int we * 60) = (te \<le> we * 60)"
    using e by linarith
  have c: "(ws * 60 \<le> ts) = (ws \<le> ts div 60)"
    by (simp add: less_eq_div_iff_mult_less_eq)
  obtain k where k: "te = 60 * k"
    using assms(2) unfolding te_def by auto
  have d: "(te \<le> we * 60) = (te div 60 \<le> we)"
    unfolding k by simp
  show ?thesis
    unfolding within_window_def Let_def a b c d by (simp add: ts_def te_def)
qed

lemma strftime_HM_less:
  assumes "m < 1440"
  shows "str_less (strftime_HM ts) (hhmm m) = (time_of ts div 60 < m)"
    and "str_less (hhmm m) (strftime_HM ts) = (m < time_of ts div 60)"
proof -
  have "time_of ts < 86400"
    by (simp add: time_of_def nat_less_iff)
  then have "time_of ts div 60 < 6000"
    by simp
  then show "str_less (strftime_HM ts) (hhmm m) = (time_of ts div 60 < m)"
    and "str_less (hhmm m) (strftime_HM ts) = (m < time_of ts div 60)"
    using assms by (simp_all add: strftime_HM_def str_less_hhmm)
qed

lemma check_coach_cases:
  assumes "req_coach_id req = Some cid" and "cid \<noteq> 0"
  shows "check_coach db ov req =
     (if coach_inactive db cid then Some CoachNotAvailable
      else if allocated db ov ''coach'' (IntRef cid) then Some CoachAlreadyBooked
      else case find (\<lambda>a. ca_coach_id a = cid \<and> ca_day_of_week a = lower (strftime_A (req_start_ts req)))
                  (coach_availability db) of
             None \<Rightarrow> Some (CoachNotAvailableOn (lower (strftime_A (req_start_ts req))))
           | Some av \<Rightarrow>
               if str_less (strftime_HM (req_start_ts req)) (ca_start_time av) \<or>
                  str_less (ca_end_time av) (strftime_HM (req_end_ts req))
               then Some (CoachAvailabilityIs (ca_start_time av) (ca_end_time av)
                            (lower (strftime_A (req_start_ts req))))
               else None)"
  using assms
  by (cases "find (\<lambda>c. co_id c = cid) (coaches db)")
    (simp_all add: check_coach_def named_coach_def coach_inactive_def Let_def)

text \<open>
  \<^bold>\<open>C7\<close> (as amended). For a request that names a coach (a coach id other than 0) and
  has passed the court and equipment checks: an unknown or inactive coach is rejected
  with \<^verbatim>\<open>'Coach not available'\<close>; an active coach with an allocation in a confirmed
  overlapping reservation is rejected with \<^verbatim>\<open>'Coach already booked for this time slot'\<close>;
  a coach without an availability row for the weekday of the start is rejected with
  \<^verbatim>\<open>'Coach not available on {day}'\<close>. When the row's window is stored as zero-padded
  \<^verbatim>\<open>HH:MM\<close> strings and the interval starts and ends on the same calendar day, on a
  whole minute at its end, the request is confirmed if the interval lies entirely within
  the window and rejected with the window otherwise. No rejected request writes a
  booking or an allocation.
\<close>

theorem coach_checks:
  assumes "\<not> court_unavailable db (req_court_id req)"
    and "\<not> holds_resource db (req_start_ts req) (req_end_ts req) ''court'' (IntRef (req_court_id req))"
    and "check_equipment db (overlapping_bookings db (req_start_ts req) (req_end_ts req))
           (req_equipment req) = None"
    and "req_coach_id req = Some cid" and "cid \<noteq> 0"
  shows
    "(coach_inactive db cid \<longrightarrow> fst (create_booking db now req) = Rejected CoachNotAvailable) \<and>
     (\<not> coach_inactive db cid \<and>
      holds_resource db (req_start_ts req) (req_end_ts req) ''coach'' (IntRef cid) \<longrightarrow>
        fst (create_booking db now req) = Rejected CoachAlreadyBooked) \<and>
     (\<not> coach_inactive db cid \<and>
      \<not> holds_resource db (req_start_ts req) (req_end_ts req) ''coach'' (IntRef cid) \<and>
      find (\<lambda>a. ca_coach_id a = cid \<and> ca_day_of_week a = lower (strftime_A (req_start_ts req)))
        (coach_availability db) = None \<longrightarrow>
        fst (create_booking db now req) =
          Rejected (CoachNotAvailableOn (lower (strftime_A (req_start_ts req))))) \<and>
     (\<not> coach_inactive db cid \<and>
      \<not> holds_resource db (req_start_ts req) (req_end_ts req) ''coach'' (IntRef cid) \<and>
      find (\<lambda>a. ca_coach_id a = cid \<and> ca_day_of_week a = lower (strftime_A (req_start_ts req)))
        (coach_availability db) = Some av \<and>
      ca_start_time av = hhmm ws \<and> ca_end_time av = hhmm we \<and> ws < 1440 \<and> we < 1440 \<and>
      req_start_ts req div 86400 = req_end_ts req div 86400 \<and>
      time_of (req_end_ts req) mod 60 = 0 \<longrightarrow>
        (if within_window (req_start_ts req) (req_end_ts req) ws we
         then is_confirmed (fst (create_booking db now req))
         else fst (create_booking db now req) =
                Rejected (CoachAvailabilityIs (hhmm ws) (hhmm we)
                            (lower (strftime_A (req_start_ts req)))))) \<and>
     (\<not> is_confirmed (fst (create_booking db now req)) \<longrightarrow>
        bookings (snd (create_booking db now req)) = bookings db \<and>
        booking_allocations (snd (create_booking db now req)) = booking_allocations db)"
proof -
  let ?ov = "overlapping_bookings db (req_start_ts req) (req_end_ts req)"
  note cc = check_coach_cases [OF assms(4,5), of db ?ov]
  note rej = create_booking_coach [OF assms(1-3), of _ now]
  note ok = create_booking_confirmed [OF assms(1-3), of now]
  have 1: "coach_inactive db cid \<longrightarrow> fst (create_booking db now req) = Rejected CoachNotAvailable"
    using rej [of CoachNotAvailable] cc by simp
  have 2: "\<not> coach_inactive db cid \<and>
      holds_resource db (req_start_ts req) (req_end_ts req) ''coach'' (IntRef cid) \<longrightarrow>
        fst (create_booking db now req) = Rejected CoachAlreadyBooked"
    using rej [of CoachAlreadyBooked] cc by (simp add: allocated_holds)
  have 3: "\<not> coach_inactive db cid \<and>
      \<not> holds_resource db (req_start_ts req) (req_end_ts req) ''coach'' (IntRef cid) \<and>
      find (\<lambda>a. ca_coach_id a = cid \<and> ca_day_of_week a = lower (strftime_A (req_start_ts req)))
        (coach_availability db) = None \<longrightarrow>
        fst (create_booking db now req) =
          Rejected (CoachNotAvailableOn (lower (strftime_A (req_start_ts req))))"
    using rej [of "CoachNotAvailableOn (lower (strftime_A (req_start_ts req)))"] cc
    by (simp add: allocated_holds)
  have 4: "\<not> coach_inactive db cid \<and>
      \<not> holds_resource db (req_start_ts req) (req_end_ts req) ''coach'' (IntRef cid) \<and>
      find (\<lambda>a. ca_coach_id a = cid \<and> ca_day_of_week a = lower (strftime_A (req_start_ts req)))
        (coach_availability db) = Some av \<and>
      ca_start_time av = hhmm ws \<and> ca_end_time av = hhmm we \<and> ws < 1440 \<and> we < 1440 \<and>
      req_start_ts req div 86400 = req_end_ts req div 86400 \<and>
      time_of (req_end_ts req) mod 60 = 0 \<longrightarrow>
        (if within_window (req_start_ts req) (req_end_ts req) ws we
         then is_confirmed (fst (create_booking db now req))
         else fst (create_booking db now req) =
                Rejected (CoachAvailabilityIs (hhmm ws) (hhmm we)
                            (lower (strftime_A (req_start_ts req)))))"
  proof (intro impI, elim conjE)
    assume h: "\<not> coach_inactive db cid"
      "\<not> holds_resource db (req_start_ts req) (req_end_ts req) ''coach'' (IntRef cid)"
      "find (\<lambda>a. ca_coach_id a = cid \<and> ca_day_of_week a = lower (strftime_A (req_start_ts req)))
        (coach_availability db) = Some av"
      "ca_start_time av = hhmm ws" "ca_end_time av = hhmm we" "ws < 1440" "we < 1440"
      "req_start_ts req div 86400 = req_end_ts req div 86400"
      "time_of (req_end_ts req) mod 60 = 0"
    have w: "within_window (req_start_ts req) (req_end_ts req) ws we =
        (\<not> (str_less (strftime_HM (req_start_ts req)) (hhmm ws) \<or>
            str_less (hhmm we) (strftime_HM (req_end_ts req))))"
      using within_window_minutes [OF h(8,9), of ws we] h(6,7)
      by (auto simp add: strftime_HM_less)
    show "if within_window (req_start_ts req) (req_end_ts req) ws we
         then is_confirmed (fst (create_booking db now req))
         else fst (create_booking db now req) =
                Rejected (CoachAvailabilityIs (hhmm ws) (hhmm we)
                            (lower (strftime_A (req_start_ts req))))"
    proof (cases "within_window (req_start_ts req) (req_end_ts req) ws we")
      case True
      then have "check_coach db ?ov req = None"
        using cc h w by (simp add: allocated_holds)
      then show ?thesis
        using True ok by simp
    next
      case False
      then have "check_coach db ?ov req =
          Some (CoachAvailabilityIs (hhmm ws) (hhmm we) (lower (strftime_A (req_start_ts req))))"
        using cc h w by (simp add: allocated_holds)
      then show ?thesis
        using False rej by simp
    qed
  qed
  have 5: "\<not> is_confirmed (fst (create_booking db now req)) \<longrightarrow>
        bookings (snd (create_booking db now req)) = bookings db \<and>
        booking_allocations (snd (create_booking db now req)) = booking_allocations db"
    using create_booking_not_confirmed [of db now req] by simp
  show ?thesis
    using 1 2 3 4 5 by blast
qed


lemma seeded_coaches:
  "coach_inactive seeded_db 1 = False"
  "coach_inactive seeded_db 2 = True"
  "coach_inactive (booked_db c) 2 = True"
  by (simp_all add: coach_inactive_def sample_defs)

lemma monday_names:
  "lower (strftime_A mon_1900) = ''monday''"
  "lower (strftime_A mon_2000) = ''monday''"
  by (simp_all add: strftime_A_def lower_def lower_char_def time_defs)

lemma seeded_availability:
  "find (\<lambda>a. ca_coach_id a = 1 \<and> ca_day_of_week a = ''monday'') (coach_availability seeded_db) =
     Some \<lparr>ca_id = 1, ca_coach_id = 1, ca_day_of_week = ''monday'', ca_start_time = ''08:00'',
           ca_end_time = ''20:00''\<rparr>"
  by (simp add: sample_defs)

lemma hhmm_samples: "hhmm 480 = ''08:00''" "hhmm 1200 = ''20:00''"
  by (simp_all add: hhmm_def two_digits_def digit_def)

lemma strftime_HM_samples:
  "strftime_HM mon_1900 = ''19:00''" "strftime_HM tue_0700 = ''07:00''"
  by (simp_all add: strftime_HM_def hhmm_def two_digits_def digit_def time_defs)

lemma window_samples:
  "within_window mon_1900 mon_2000 480 1200"
  "\<not> within_window mon_2000 mon_2100 480 1200"
  "\<not> within_window mon_1900 tue_0700 480 1200"
  by (simp_all add: within_window_def time_defs)

theorem coach_checks_witness:
  "is_confirmed (fst (create_booking seeded_db 7 (bob_request\<lparr>req_coach_id := Some 1\<rparr>))) \<and>
   fst (create_booking seeded_db 7
     (bob_request\<lparr>req_start_ts := mon_2000, req_end_ts := mon_2100, req_coach_id := Some 1\<rparr>)) =
     Rejected (CoachAvailabilityIs ''08:00'' ''20:00'' ''monday'') \<and>
   fst (create_booking seeded_db 7 (bob_request\<lparr>req_coach_id := Some 2\<rparr>)) =
     Rejected CoachNotAvailable"
proof -
  let ?av = "\<lparr>ca_id = 1, ca_coach_id = 1, ca_day_of_week = ''monday'', ca_start_time = ''08:00'',
           ca_end_time = ''20:00''\<rparr>"
  let ?r1 = "bob_request\<lparr>req_coach_id := Some 1\<rparr>"
  let ?r2 = "bob_request\<lparr>req_start_ts := mon_2000, req_end_ts := mon_2100, req_coach_id := Some 1\<rparr>"
  let ?r3 = "bob_request\<lparr>req_coach_id := Some 2\<rparr>"
  have f1: "req_court_id ?r1 = 1" "req_start_ts ?r1 = mon_1900" "req_end_ts ?r1 = mon_2000"
    "req_equipment ?r1 = []" "req_coach_id ?r1 = Some 1"
    by (simp_all add: bob_request_def)
  have f2: "req_court_id ?r2 = 1" "req_start_ts ?r2 = mon_2000" "req_end_ts ?r2 = mon_2100"
    "req_equipment ?r2 = []" "req_coach_id ?r2 = Some 1"
    by (simp_all add: bob_request_def)
  have f3: "req_court_id ?r3 = 1" "req_start_ts ?r3 = mon_1900" "req_end_ts ?r3 = mon_2000"
    "req_equipment ?r3 = []" "req_coach_id ?r3 = Some 2"
    by (simp_all add: bob_request_def)
  have t: "mon_1900 div 86400 = mon_2000 div 86400" "time_of mon_2000 mod 60 = 0"
    "mon_2000 div 86400 = mon_2100 div 86400" "time_of mon_2100 mod 60 = 0"
    by (simp_all add: time_defs)
  have c1: "is_confirmed (fst (create_booking seeded_db 7 ?r1))"
    using coach_checks [of seeded_db ?r1 1 7 ?av 480 1200] booked_db_courts(4)
      booked_db_holds(3) seeded_coaches(1) seeded_availability window_samples(1) t
    by (simp add: f1 monday_names hhmm_samples)
  have c2: "fst (create_booking seeded_db 7 ?r2) =
      Rejected (CoachAvailabilityIs ''08:00'' ''20:00'' ''monday'')"
    using coach_checks [of seeded_db ?r2 1 7 ?av 480 1200] booked_db_courts(4)
      booked_db_holds(3) seeded_coaches(1) seeded_availability window_samples(2) t
    by (simp add: f2 monday_names hhmm_samples)
  have c3: "fst (create_booking seeded_db 7 ?r3) = Rejected CoachNotAvailable"
    using coach_checks [of seeded_db ?r3 2 7 ?av 480 1200] booked_db_courts(4)
      booked_db_holds(3) seeded_coaches(2)
    by (simp add: f3)
  show ?thesis
    using c1 c2 c3 by simp
qed

text \<open>
  The claim as stated fails in two ways. The coach is looked at only after the court:
  a request naming the inactive coach 2 for a taken court is put on the waitlist. And
  the window test compares the \<^verbatim>\<open>HH:MM\<close> texts of the two ends only: Monday 19:00 to
  Tuesday 07:00 is confirmed against a window from 08:00 to 20:00.
\<close>

theorem coach_checks_skipped_or_too_lax:
  "coach_inactive (booked_db 1) 2 \<and>
   fst (create_booking (booked_db 1) 7 (bob_request\<lparr>req_coach_id := Some 2\<rparr>)) = Waitlisted 1 \<and>
   \<not> within_window mon_1900 tue_0700 480 1200 \<and>
   is_confirmed (fst (create_booking seeded_db 7
     (bob_request\<lparr>req_end_ts := tue_0700, req_coach_id := Some 1\<rparr>)))"
proof -
  let ?r = "bob_request\<lparr>req_end_ts := tue_0700, req_coach_id := Some 1\<rparr>"
  have w: "fst (create_booking (booked_db 1) 7 (bob_request\<lparr>req_coach_id := Some 2\<rparr>)) =
      Waitlisted 1"
    using booked_db_courts(1) [of 1] booked_db_holds(1) [of 1]
    by (simp add: create_booking_waitlisted bob_request_def)
      (simp add: sample_defs next_id_def)
  have f: "req_court_id ?r = 1" "req_start_ts ?r = mon_1900" "req_end_ts ?r = tue_0700"
    "req_equipment ?r = []" "req_coach_id ?r = Some 1"
    by (simp_all add: bob_request_def)
  have "check_coach seeded_db (overlapping_bookings seeded_db mon_1900 tue_0700) ?r = None"
    using check_coach_cases [of ?r 1 seeded_db "overlapping_bookings seeded_db mon_1900 tue_0700"]
      seeded_coaches(1) seeded_availability booked_db_holds(3)
    by (simp add: f allocated_holds monday_names strftime_HM_samples)
  then have c: "is_confirmed (fst (create_booking seeded_db 7 ?r))"
    using booked_db_courts(4) booked_db_holds(3)
    by (simp add: create_booking_is_confirmed f)
  show ?thesis
    using w c seeded_coaches(3) [of 1] window_samples(3) by simp
qed

subsection \<open>Stored snapshots and slot hashes\<close>

text \<open>
  The handler never writes a pricing rule, so the price of a confirmed booking can be
  recomputed from the database it leaves behind and equals the stored snapshot.
\<close>

lemma confirm_booking_tables:
  "bookings (snd (confirm_booking db now user req price)) =
     bookings db @ [\<lparr>b_id = next_id (map b_id (bookings db)), b_user_id = u_id user,
                      b_start_ts = req_start_ts req, b_end_ts = req_end_ts req,
                      b_status = ''confirmed'', b_total_price = p_total price,
                      b_pricing_snapshot = price, b_created_at = now\<rparr>]"
  "pricing_rules (snd (confirm_booking db now user req price)) = pricing_rules db"
  by (simp_all add: confirm_booking_def Let_def)

lemma create_booking_pricing_rules:
  "pricing_rules (snd (create_booking db now req)) = pricing_rules db"
  by (simp add: create_booking_stages Let_def confirm_booking_tables get_or_create_user_frame
      split: option.splits)

lemma snapshot_reproducible:
  assumes "fst (create_booking db now req) = Confirmed bid t price"
    and "find (\<lambda>c. c_id c = req_court_id req) (courts db) = Some court"
  shows "compute_price (snd (create_booking db now req)) court (req_start_ts req) (req_end_ts req)
           (req_equipment req)
           (case named_coach req of None \<Rightarrow> None
            | Some cid \<Rightarrow> find (\<lambda>c. co_id c = cid) (coaches db)) = price \<and>
         t = p_total price"
proof -
  have "compute_price (snd (create_booking db now req)) court s e eq co =
      compute_price db court s e eq co" for s e eq co
    by (simp add: compute_price_def applicable_rules_def create_booking_pricing_rules)
  then show ?thesis
    using assms
    by (auto simp add: create_booking_stages Let_def confirm_booking_frame
        split: option.splits if_splits)
qed

text \<open>
  The hash that \<^verbatim>\<open>cancel_booking\<close> recomputes for a booking that \<^verbatim>\<open>create_booking\<close> has
  just confirmed is the hash under which later callers are put on the waitlist for that
  slot, provided no allocation row already carried the new booking's key.
\<close>

lemma next_id_fresh: "x \<in> set ids \<Longrightarrow> x < next_id ids"
  by (induction ids) (auto simp add: next_id_def)

lemma find_append_None: "find P xs = None \<Longrightarrow> find P (xs @ ys) = find P ys"
  by (induction xs) (auto split: if_splits)

lemma find_fresh:
  "find (\<lambda>b. b_id b = next_id (map b_id bs)) (bs @ [b]) =
     (if b_id b = next_id (map b_id bs) then Some b else None)"
proof -
  have "find (\<lambda>b. b_id b = next_id (map b_id bs)) bs = None"
    using next_id_fresh [of _ "map b_id bs"] by (fastforce simp add: find_None_iff)
  then show ?thesis
    by (simp add: find_append_None)
qed

lemma confirmed_slot_hash:
  assumes "fst (create_booking db now req) = Confirmed bid t price"
    and "bid \<notin> set (map ba_booking_id (booking_allocations db))"
  shows "\<exists>b. find (\<lambda>b. b_id b = bid) (bookings (snd (create_booking db now req))) = Some b \<and>
             b_status b = ''confirmed'' \<and>
             cancel_slot_hash (snd (create_booking db now req)) b =
               SlotHash (req_start_ts req) (req_end_ts req) (Some (IntRef (req_court_id req)))"
proof -
  let ?db1 = "snd (get_or_create_user db (req_user_email req))"
  let ?user = "fst (get_or_create_user db (req_user_email req))"
  obtain p where c: "create_booking db now req = confirm_booking ?db1 now ?user req p"
    using assms(1)
    by (auto simp add: create_booking_stages Let_def split: option.splits if_splits)
  have bid: "bid = next_id (map b_id (bookings db))"
    using assms(1) by (simp add: c confirm_booking_frame get_or_create_user_frame)
  have nf: "filter (\<lambda>a. ba_booking_id a = next_id (map b_id (bookings db))) (booking_allocations db) = []"
    using assms(2) unfolding bid by (force simp add: filter_empty_conv)
  show ?thesis
    unfolding c bid
    by (simp add: confirm_booking_def Let_def get_or_create_user_frame find_fresh
        cancel_slot_hash_def allocations_def nf resource_id_def)
qed

lemma create_booking_snapshots:
  assumes "fst (create_booking db now req) = Confirmed bid t price"
  shows "map b_pricing_snapshot (bookings (snd (create_booking db now req))) =
           map b_pricing_snapshot (bookings db) @ [price]"
  using assms
  by (auto simp add: create_booking_stages Let_def confirm_booking_frame confirm_booking_tables
      get_or_create_user_frame split: option.splits if_splits)

text \<open>
  \<^bold>\<open>C9\<close> (as amended). \<^verbatim>\<open>compute_price\<close> issues one query, for the enabled pricing
  rules, and no write. Two calls with the same court, interval, equipment list and
  coach give the same base, total, rule breakdown and line items whenever they see, for
  every priority, the same enabled rules of that priority in the same order; nothing
  else in the database matters. The quoting handler returns the database as it found
  it, and after a confirmed booking the price recomputed on the committed database is
  the stored snapshot.
\<close>

theorem compute_price_deterministic:
  "((\<forall>k. filter (\<lambda>r. pr_priority r = k) (filter pr_enabled (pricing_rules db1)) =
         filter (\<lambda>r. pr_priority r = k) (filter pr_enabled (pricing_rules db2))) \<longrightarrow>
      compute_price db1 court s e eq co = compute_price db2 court s e eq co) \<and>
   snd (simulate_pricing db1 s e cid) = db1 \<and>
   (fst (create_booking db1 now req) = Confirmed bid t price \<and>
    find (\<lambda>c. c_id c = req_court_id req) (courts db1) = Some court \<longrightarrow>
      map b_pricing_snapshot (bookings (snd (create_booking db1 now req))) =
        map b_pricing_snapshot (bookings db1) @ [price] \<and>
      compute_price (snd (create_booking db1 now req)) court (req_start_ts req) (req_end_ts req)
        (req_equipment req)
        (case named_coach req of None \<Rightarrow> None
         | Some c \<Rightarrow> find (\<lambda>x. co_id x = c) (coaches db1)) = price \<and>
      t = p_total price)"
proof (intro conjI impI)
  assume "\<forall>k. filter (\<lambda>r. pr_priority r = k) (filter pr_enabled (pricing_rules db1)) =
         filter (\<lambda>r. pr_priority r = k) (filter pr_enabled (pricing_rules db2))"
  then show "compute_price db1 court s e eq co = compute_price db2 court s e eq co"
    by (intro compute_price_classes) simp
next
  show "snd (simulate_pricing db1 s e cid) = db1"
    by (simp add: simulate_pricing_def split: option.splits)
next
  assume a: "fst (create_booking db1 now req) = Confirmed bid t price \<and>
    find (\<lambda>c. c_id c = req_court_id req) (courts db1) = Some court"
  then show "map b_pricing_snapshot (bookings (snd (create_booking db1 now req))) =
        map b_pricing_snapshot (bookings db1) @ [price]"
    using create_booking_snapshots [of db1 now req bid t price] by simp
  show "compute_price (snd (create_booking db1 now req)) court (req_start_ts req) (req_end_ts req)
        (req_equipment req)
        (case named_coach req of None \<Rightarrow> None
         | Some c \<Rightarrow> find (\<lambda>x. co_id x = c) (coaches db1)) = price"
    using a snapshot_reproducible [of db1 now req bid t price court] by simp
  show "t = p_total price"
    using a snapshot_reproducible [of db1 now req bid t price court] by simp
qed

lemma tie_rule_kinds:
  "rule_kind service_charge = Some (Percentage 10, Additive)"
  "rule_kind lighting_fee = Some (Absolute 100, Additive)"
  by (simp_all add: rule_kind_def service_charge_def lighting_fee_def)

lemma tie_applicable:
  "applicable_rules (seeded_db\<lparr>pricing_rules := [service_charge, lighting_fee]\<rparr>) court_1 s e =
     [service_charge, lighting_fee]"
  "applicable_rules (seeded_db\<lparr>pricing_rules := [lighting_fee, service_charge]\<rparr>) court_1 s e =
     [lighting_fee, service_charge]"
  by (simp_all add: applicable_rules_def service_charge_def lighting_fee_def rule_applies_def)

text \<open>
  The claim as stated, for the same rule set, fails when two enabled rules share a
  priority: the query has no order and the sort is stable, so they are applied in the
  order in which the rows come back. A ten percent charge and a flat fee of 100 on a
  base of 600 give 760 in one order and 770 in the other.
\<close>

theorem tie_order_changes_total:
  "set (filter pr_enabled (pricing_rules (seeded_db\<lparr>pricing_rules := [service_charge, lighting_fee]\<rparr>))) =
   set (filter pr_enabled (pricing_rules (seeded_db\<lparr>pricing_rules := [lighting_fee, service_charge]\<rparr>))) \<and>
   pr_priority service_charge = pr_priority lighting_fee \<and>
   p_total (compute_price (seeded_db\<lparr>pricing_rules := [service_charge, lighting_fee]\<rparr>) court_1
     mon_1000 (mon_1000 + 3600) [] None) = 760 \<and>
   p_total (compute_price (seeded_db\<lparr>pricing_rules := [lighting_fee, service_charge]\<rparr>) court_1
     mon_1000 (mon_1000 + 3600) [] None) = 770"
proof -
  have rate: "c_base_hourly court_1 = 600"
    by (simp add: court_1_def)
  have ab: "p_total (compute_price (seeded_db\<lparr>pricing_rules := [service_charge, lighting_fee]\<rparr>)
      court_1 mon_1000 (mon_1000 + 3600) [] None) = 760"
    by (simp add: compute_price_total tie_applicable rate fold_rules_def tie_rule_kinds)
  have ba: "p_total (compute_price (seeded_db\<lparr>pricing_rules := [lighting_fee, service_charge]\<rparr>)
      court_1 mon_1000 (mon_1000 + 3600) [] None) = 770"
    by (simp add: compute_price_total tie_applicable rate fold_rules_def tie_rule_kinds)
  have "pr_priority service_charge = pr_priority lighting_fee"
    by (simp add: service_charge_def lighting_fee_def)
  moreover have "pr_enabled service_charge" "pr_enabled lighting_fee"
    by (simp_all add: service_charge_def lighting_fee_def)
  ultimately show ?thesis
    using ab ba by auto
qed

lemma bob_confirmed:
  "fst (create_booking seeded_db 7 bob_request) =
     Confirmed 1 (p_total (compute_price seeded_db court_1 mon_1900 mon_2000 [] None))
       (compute_price seeded_db court_1 mon_1900 mon_2000 [] None)"
proof -
  have f: "find (\<lambda>c. c_id c = req_court_id bob_request) (courts seeded_db) = Some court_1"
    by (simp add: bob_request_def sample_defs)
  have e: "c_enabled court_1"
    by (simp add: court_1_def)
  have h: "\<not> allocated seeded_db (overlapping_bookings seeded_db mon_1900 mon_2000) ''court''
      (IntRef 1)"
    using booked_db_holds(3) by (simp add: allocated_holds)
  have r: "req_start_ts bob_request = mon_1900" "req_end_ts bob_request = mon_2000"
    "req_court_id bob_request = 1" "req_equipment bob_request = []"
    "req_coach_id bob_request = None"
    by (simp_all add: bob_request_def)
  have b: "bookings seeded_db = []"
    by (simp add: seeded_db_def empty_db_def)
  show ?thesis
    using f e h
    by (simp add: create_booking_stages Let_def r check_coach_def named_coach_def
        confirm_booking_frame get_or_create_user_frame b next_id_def)
qed

theorem compute_price_deterministic_witness:
  "pricing_rules (booked_db 1\<lparr>pricing_rules := [indoor_premium, peak_hours]\<rparr>) \<noteq>
     pricing_rules seeded_db \<and>
   compute_price (booked_db 1\<lparr>pricing_rules := [indoor_premium, peak_hours]\<rparr>) court_1
     mon_1900 mon_2000 [rackets 2] None =
   compute_price seeded_db court_1 mon_1900 mon_2000 [rackets 2] None \<and>
   snd (simulate_pricing seeded_db mon_1900 mon_2000 1) = seeded_db \<and>
   map b_pricing_snapshot (bookings (snd (create_booking seeded_db 7 bob_request))) =
     [compute_price (snd (create_booking seeded_db 7 bob_request)) court_1 mon_1900 mon_2000 [] None]"
proof -
  let ?db2 = "booked_db 1\<lparr>pricing_rules := [indoor_premium, peak_hours]\<rparr>"
  let ?price = "compute_price seeded_db court_1 mon_1900 mon_2000 [] None"
  have classes: "\<forall>k. filter (\<lambda>r. pr_priority r = k) (filter pr_enabled (pricing_rules ?db2)) =
      filter (\<lambda>r. pr_priority r = k) (filter pr_enabled (pricing_rules seeded_db))"
    by (simp add: seeded_db_def empty_db_def peak_hours_def indoor_premium_def)
  have differ: "pricing_rules ?db2 \<noteq> pricing_rules seeded_db"
    by (simp add: seeded_db_def empty_db_def peak_hours_def indoor_premium_def)
  have same: "compute_price ?db2 court_1 mon_1900 mon_2000 [rackets 2] None =
      compute_price seeded_db court_1 mon_1900 mon_2000 [rackets 2] None"
    using compute_price_deterministic [of ?db2 seeded_db court_1 mon_1900 mon_2000
        "[rackets 2]" None] classes
    by blast
  have f: "find (\<lambda>c. c_id c = req_court_id bob_request) (courts seeded_db) = Some court_1"
    by (simp add: bob_request_def sample_defs)
  have r: "req_start_ts bob_request = mon_1900" "req_end_ts bob_request = mon_2000"
    "req_equipment bob_request = []" "named_coach bob_request = None"
    by (simp_all add: bob_request_def named_coach_def)
  have b: "bookings seeded_db = []"
    by (simp add: seeded_db_def empty_db_def)
  have snap: "map b_pricing_snapshot (bookings (snd (create_booking seeded_db 7 bob_request))) =
      [?price] \<and>
    compute_price (snd (create_booking seeded_db 7 bob_request)) court_1 mon_1900 mon_2000 [] None =
      ?price"
    using compute_price_deterministic [where ?db1.0 = seeded_db and now = 7 and req = bob_request
        and bid = 1 and t = "p_total ?price" and price = ?price and court = court_1]
      bob_confirmed f
    by (simp add: r b)
  have quote: "snd (simulate_pricing seeded_db mon_1900 mon_2000 1) = seeded_db"
    using compute_price_deterministic [where ?db1.0 = seeded_db and s = mon_1900 and e = mon_2000
        and cid = 1]
    by blast
  show ?thesis
    using differ same snap quote by simp
qed


subsection \<open>The outcome of a cancellation\<close>

lemma cancel_slot_hash_primary:
  "cancel_slot_hash db booking =
     SlotHash (b_start_ts booking) (b_end_ts booking) (primary_resource db booking)"
  by (simp add: cancel_slot_hash_def allocations_def primary_resource_def)

text \<open>
  \<^bold>\<open>C6\<close>. Cancelling an unknown booking is rejected with \<^verbatim>\<open>'booking not found'\<close> and
  changes nothing. Cancelling an existing booking sets its status to \<^verbatim>\<open>cancelled\<close>,
  keeps every allocation and every waitlist entry, adds no booking and confirms none.
  The slot hash it looks up is made of the interval of the cancelled booking and the
  resource of the first allocation row that belongs to that booking: the outcome names
  the user of a waitlist entry stored under this hash whose creation time is minimal
  among the entries under it, or nobody when there is no such entry. For a booking that
  \<^verbatim>\<open>create_booking\<close> has confirmed, under a key that no earlier allocation row carried,
  this is the hash under which \<^verbatim>\<open>create_booking\<close> enters the callers who find the court
  of that booking taken for its interval.
\<close>

theorem cancel_booking_advises:
  "(find (\<lambda>b. b_id b = bid) (bookings db) = None \<longrightarrow>
      cancel_booking db bid = (CancelRejected BookingNotFound, db) \<and>
      status_code BookingNotFound = 404) \<and>
   (find (\<lambda>b. b_id b = bid) (bookings db) = Some booking \<longrightarrow>
      find (\<lambda>b. b_id b = bid) (bookings (snd (cancel_booking db bid))) =
        Some (booking\<lparr>b_status := ''cancelled''\<rparr>) \<and>
      booking_allocations (snd (cancel_booking db bid)) = booking_allocations db \<and>
      waitlist_entries (snd (cancel_booking db bid)) = waitlist_entries db \<and>
      length (bookings (snd (cancel_booking db bid))) = length (bookings db) \<and>
      filter (\<lambda>b. b_status b = ''confirmed'') (bookings (snd (cancel_booking db bid))) =
        filter (\<lambda>b. b_status b = ''confirmed'' \<and> b_id b \<noteq> bid) (bookings db) \<and>
      ((\<exists>w \<in> set (waitlist_entries db).
          w_slot_hash w =
            SlotHash (b_start_ts booking) (b_end_ts booking) (primary_resource db booking) \<and>
          (\<forall>w' \<in> set (waitlist_entries db).
             w_slot_hash w' =
               SlotHash (b_start_ts booking) (b_end_ts booking) (primary_resource db booking) \<longrightarrow>
             w_created_at w \<le> w_created_at w') \<and>
          fst (cancel_booking db bid) = Cancelled (Some (w_user_id w))) \<or>
       ((\<forall>w \<in> set (waitlist_entries db).
           w_slot_hash w \<noteq>
             SlotHash (b_start_ts booking) (b_end_ts booking) (primary_resource db booking)) \<and>
        fst (cancel_booking db bid) = Cancelled None))) \<and>
   (fst (create_booking db0 now req) = Confirmed new_id t price \<and>
    new_id \<notin> set (map ba_booking_id (booking_allocations db0)) \<longrightarrow>
      (\<exists>b. find (\<lambda>b. b_id b = new_id) (bookings (snd (create_booking db0 now req))) = Some b \<and>
           b_status b = ''confirmed'' \<and>
           SlotHash (b_start_ts b) (b_end_ts b)
             (primary_resource (snd (create_booking db0 now req)) b) =
           SlotHash (req_start_ts req) (req_end_ts req) (Some (IntRef (req_court_id req)))))"
proof (intro conjI impI)
  assume "find (\<lambda>b. b_id b = bid) (bookings db) = None"
  then show "cancel_booking db bid = (CancelRejected BookingNotFound, db)"
    by (simp add: cancel_booking_def)
next
  show "status_code BookingNotFound = 404"
    by simp
next
  assume f: "find (\<lambda>b. b_id b = bid) (bookings db) = Some booking"
  let ?h = "SlotHash (b_start_ts booking) (b_end_ts booking) (primary_resource db booking)"
  have h: "cancel_slot_hash db booking = ?h"
    by (rule cancel_slot_hash_primary)
  note out = cancel_booking_outcome [OF f]
  show "find (\<lambda>b. b_id b = bid) (bookings (snd (cancel_booking db bid))) =
      Some (booking\<lparr>b_status := ''cancelled''\<rparr>)"
    by (simp add: out find_map_cancel [OF f])
  show "booking_allocations (snd (cancel_booking db bid)) = booking_allocations db"
    by (simp add: out)
  show "waitlist_entries (snd (cancel_booking db bid)) = waitlist_entries db"
    by (simp add: out)
  show "length (bookings (snd (cancel_booking db bid))) = length (bookings db)"
    by (simp add: out)
  show "filter (\<lambda>b. b_status b = ''confirmed'') (bookings (snd (cancel_booking db bid))) =
      filter (\<lambda>b. b_status b = ''confirmed'' \<and> b_id b \<noteq> bid) (bookings db)"
    by (simp add: out filter_confirmed_cancel)
  show "(\<exists>w \<in> set (waitlist_entries db).
          w_slot_hash w = ?h \<and>
          (\<forall>w' \<in> set (waitlist_entries db). w_slot_hash w' = ?h \<longrightarrow>
             w_created_at w \<le> w_created_at w') \<and>
          fst (cancel_booking db bid) = Cancelled (Some (w_user_id w))) \<or>
       ((\<forall>w \<in> set (waitlist_entries db). w_slot_hash w \<noteq> ?h) \<and>
        fst (cancel_booking db bid) = Cancelled None)"
  proof (cases "next_waitlist db ?h")
    case None
    then show ?thesis
      using next_waitlist_None [OF None] by (simp add: out h)
  next
    case (Some w)
    then show ?thesis
      using next_waitlist_Some [OF Some] by (auto simp add: out h)
  qed
next
  assume "fst (create_booking db0 now req) = Confirmed new_id t price \<and>
    new_id \<notin> set (map ba_booking_id (booking_allocations db0))"
  then show "\<exists>b. find (\<lambda>b. b_id b = new_id) (bookings (snd (create_booking db0 now req))) = Some b \<and>
           b_status b = ''confirmed'' \<and>
           SlotHash (b_start_ts b) (b_end_ts b)
             (primary_resource (snd (create_booking db0 now req)) b) =
           SlotHash (req_start_ts req) (req_end_ts req) (Some (IntRef (req_court_id req)))"
    using confirmed_slot_hash [of db0 now req new_id t price]
    by (simp add: cancel_slot_hash_primary)
qed



lemma bob_court_3_staged:
  "create_booking (booked_db 1) 7 bob_court_3 =
     confirm_booking (snd (get_or_create_user (booked_db 1) ''bob@example.com'')) 7
       (fst (get_or_create_user (booked_db 1) ''bob@example.com'')) bob_court_3
       (compute_price (booked_db 1) court_3 mon_1900 mon_2000 [] None)"
proof -
  have f: "find (\<lambda>c. c_id c = req_court_id bob_court_3) (courts (booked_db 1)) = Some court_3"
    by (simp add: bob_court_3_def sample_defs)
  have e: "c_enabled court_3"
    by (simp add: court_3_def)
  have h: "\<not> allocated (booked_db 1) (overlapping_bookings (booked_db 1) mon_1900 mon_2000)
      ''court'' (IntRef 3)"
    by (simp add: allocated_holds holds_resource_def overlap_def sample_defs resource_id_def)
  have r: "req_start_ts bob_court_3 = mon_1900" "req_end_ts bob_court_3 = mon_2000"
    "req_court_id bob_court_3 = 3" "req_equipment bob_court_3 = []"
    "req_coach_id bob_court_3 = None" "req_user_email bob_court_3 = ''bob@example.com''"
    by (simp_all add: bob_court_3_def bob_request_def)
  show ?thesis
    using f e h
    by (simp add: create_booking_stages Let_def r check_coach_def named_coach_def)
qed

lemma bob_court_3_booked:
  "fst (create_booking (booked_db 1) 7 bob_court_3) =
     Confirmed 2 (p_total (compute_price (booked_db 1) court_3 mon_1900 mon_2000 [] None))
       (compute_price (booked_db 1) court_3 mon_1900 mon_2000 [] None)"
  "bookings (snd (create_booking (booked_db 1) 7 bob_court_3)) = [alice_booking, bob_booking]"
  "booking_allocations (snd (create_booking (booked_db 1) 7 bob_court_3)) =
     [\<lparr>ba_id = 1, ba_booking_id = 1, ba_resource_type = ''court'', ba_resource_id = IntRef 1,
       ba_quantity = 1\<rparr>,
      \<lparr>ba_id = 2, ba_booking_id = 1, ba_resource_type = ''equipment'',
       ba_resource_id = SkuRef ''racket'', ba_quantity = 8\<rparr>,
      \<lparr>ba_id = 3, ba_booking_id = 2, ba_resource_type = ''court'', ba_resource_id = IntRef 3,
       ba_quantity = 1\<rparr>]"
  "waitlist_entries (snd (create_booking (booked_db 1) 7 bob_court_3)) = []"
  "courts (snd (create_booking (booked_db 1) 7 bob_court_3)) = courts seeded_db"
  "users (snd (create_booking (booked_db 1) 7 bob_court_3)) =
     [\<lparr>u_id = 1, u_name = ''alice'', u_email = ''alice@example.com''\<rparr>,
      \<lparr>u_id = 2, u_name = ''bob'', u_email = ''bob@example.com''\<rparr>]"
proof -
  note c = bob_court_3_staged
  have r: "req_start_ts bob_court_3 = mon_1900" "req_end_ts bob_court_3 = mon_2000"
    "req_court_id bob_court_3 = 3" "req_equipment bob_court_3 = []"
    "req_coach_id bob_court_3 = None" "req_user_email bob_court_3 = ''bob@example.com''"
    by (simp_all add: bob_court_3_def bob_request_def)
  have t: "bookings (booked_db 1) = [alice_booking]"
    "booking_allocations (booked_db 1) =
       [\<lparr>ba_id = 1, ba_booking_id = 1, ba_resource_type = ''court'', ba_resource_id = IntRef 1,
         ba_quantity = 1\<rparr>,
        \<lparr>ba_id = 2, ba_booking_id = 1, ba_resource_type = ''equipment'',
         ba_resource_id = SkuRef ''racket'', ba_quantity = 8\<rparr>]"
    "waitlist_entries (booked_db 1) = []"
    "users (booked_db 1) = [\<lparr>u_id = 1, u_name = ''alice'', u_email = ''alice@example.com''\<rparr>]"
    "courts (booked_db 1) = courts seeded_db"
    by (simp_all add: booked_db_def seeded_db_def empty_db_def)
  have a: "b_id alice_booking = 1"
    by (simp add: alice_booking_def)
  have u: "fst (get_or_create_user (booked_db 1) ''bob@example.com'') =
      \<lparr>u_id = 2, u_name = ''bob'', u_email = ''bob@example.com''\<rparr>"
    by (simp add: get_or_create_user_def Let_def t next_id_def)
  show "fst (create_booking (booked_db 1) 7 bob_court_3) =
     Confirmed 2 (p_total (compute_price (booked_db 1) court_3 mon_1900 mon_2000 [] None))
       (compute_price (booked_db 1) court_3 mon_1900 mon_2000 [] None)"
    by (simp add: c confirm_booking_frame get_or_create_user_frame t a next_id_def)
  show "bookings (snd (create_booking (booked_db 1) 7 bob_court_3)) =
      [alice_booking, bob_booking]"
    by (simp add: c u confirm_booking_tables get_or_create_user_frame t a r next_id_def
        bob_booking_def)
  show "booking_allocations (snd (create_booking (booked_db 1) 7 bob_court_3)) =
     [\<lparr>ba_id = 1, ba_booking_id = 1, ba_resource_type = ''court'', ba_resource_id = IntRef 1,
       ba_quantity = 1\<rparr>,
      \<lparr>ba_id = 2, ba_booking_id = 1, ba_resource_type = ''equipment'',
       ba_resource_id = SkuRef ''racket'', ba_quantity = 8\<rparr>,
      \<lparr>ba_id = 3, ba_booking_id = 2, ba_resource_type = ''court'', ba_resource_id = IntRef 3,
       ba_quantity = 1\<rparr>]"
    by (simp add: c confirm_booking_def Let_def get_or_create_user_frame t a r next_id_def
        named_coach_def)
  show "waitlist_entries (snd (create_booking (booked_db 1) 7 bob_court_3)) = []"
    by (simp add: c confirm_booking_frame get_or_create_user_frame t)
  show "courts (snd (create_booking (booked_db 1) 7 bob_court_3)) = courts seeded_db"
    by (simp add: c confirm_booking_def Let_def get_or_create_user_frame t)
  show "users (snd (create_booking (booked_db 1) 7 bob_court_3)) =
     [\<lparr>u_id = 1, u_name = ''alice'', u_email = ''alice@example.com''\<rparr>,
      \<lparr>u_id = 2, u_name = ''bob'', u_email = ''bob@example.com''\<rparr>]"
    by (simp add: create_booking_users get_or_create_user_snd r t next_id_def)
qed

lemma carol_court_3_waits:
  "fst (create_booking (snd (create_booking (booked_db 1) 7 bob_court_3)) 8 carol_court_3) =
     Waitlisted 1"
  "bookings (snd (create_booking (snd (create_booking (booked_db 1) 7 bob_court_3)) 8
     carol_court_3)) = [alice_booking, bob_booking]"
  "booking_allocations (snd (create_booking (snd (create_booking (booked_db 1) 7 bob_court_3)) 8
     carol_court_3)) =
     [\<lparr>ba_id = 1, ba_booking_id = 1, ba_resource_type = ''court'', ba_resource_id = IntRef 1,
       ba_quantity = 1\<rparr>,
      \<lparr>ba_id = 2, ba_booking_id = 1, ba_resource_type = ''equipment'',
       ba_resource_id = SkuRef ''racket'', ba_quantity = 8\<rparr>,
      \<lparr>ba_id = 3, ba_booking_id = 2, ba_resource_type = ''court'', ba_resource_id = IntRef 3,
       ba_quantity = 1\<rparr>]"
  "waitlist_entries (snd (create_booking (snd (create_booking (booked_db 1) 7 bob_court_3)) 8
     carol_court_3)) =
     [\<lparr>w_id = 1, w_slot_hash = SlotHash mon_1900 mon_2000 (Some (IntRef 3)), w_user_id = 3,
       w_created_at = 8\<rparr>]"
proof -
  let ?db1 = "snd (create_booking (booked_db 1) 7 bob_court_3)"
  have r: "req_start_ts carol_court_3 = mon_1900" "req_end_ts carol_court_3 = mon_2000"
    "req_court_id carol_court_3 = 3" "req_user_email carol_court_3 = ''carol@example.com''"
    by (simp_all add: carol_court_3_def bob_court_3_def bob_request_def)
  have b: "b_id alice_booking = 1" "b_id bob_booking = 2"
    "b_status bob_booking = ''confirmed''" "b_start_ts bob_booking = mon_1900"
    "b_end_ts bob_booking = mon_2000" "b_status alice_booking = ''confirmed''"
    "b_start_ts alice_booking = mon_1900" "b_end_ts alice_booking = mon_2000"
    by (simp_all add: alice_booking_def bob_booking_def)
  have avail: "\<not> court_unavailable ?db1 (req_court_id carol_court_3)"
    unfolding court_unavailable_def r bob_court_3_booked(5)
    by (simp add: seeded_db_def empty_db_def court_1_def court_3_def)
  have taken: "holds_resource ?db1 (req_start_ts carol_court_3) (req_end_ts carol_court_3)
      ''court'' (IntRef (req_court_id carol_court_3))"
    by (simp add: r b holds_resource_def bob_court_3_booked overlap_def resource_id_def time_defs)
  note wait = create_booking_waitlisted [OF avail taken, of 8]
  have carol: "u_id (fst (get_or_create_user ?db1 ''carol@example.com'')) = 3"
    by (simp add: get_or_create_user_def Let_def bob_court_3_booked next_id_def)
  show "fst (create_booking ?db1 8 carol_court_3) = Waitlisted 1"
    by (simp add: wait bob_court_3_booked next_id_def)
  show "bookings (snd (create_booking ?db1 8 carol_court_3)) = [alice_booking, bob_booking]"
    by (simp add: wait get_or_create_user_frame bob_court_3_booked)
  show "booking_allocations (snd (create_booking ?db1 8 carol_court_3)) =
     [\<lparr>ba_id = 1, ba_booking_id = 1, ba_resource_type = ''court'', ba_resource_id = IntRef 1,
       ba_quantity = 1\<rparr>,
      \<lparr>ba_id = 2, ba_booking_id = 1, ba_resource_type = ''equipment'',
       ba_resource_id = SkuRef ''racket'', ba_quantity = 8\<rparr>,
      \<lparr>ba_id = 3, ba_booking_id = 2, ba_resource_type = ''court'', ba_resource_id = IntRef 3,
       ba_quantity = 1\<rparr>]"
    by (simp add: wait get_or_create_user_frame bob_court_3_booked)
  show "waitlist_entries (snd (create_booking ?db1 8 carol_court_3)) =
     [\<lparr>w_id = 1, w_slot_hash = SlotHash mon_1900 mon_2000 (Some (IntRef 3)), w_user_id = 3,
       w_created_at = 8\<rparr>]"
    by (simp add: wait r carol bob_court_3_booked next_id_def)
qed

theorem cancel_booking_advises_witness:
  "fst (cancel_booking waiting_db 1) = Cancelled (Some 3) \<and>
   map b_status (bookings (snd (cancel_booking waiting_db 1))) = [''cancelled''] \<and>
   map w_user_id (waitlist_entries (snd (cancel_booking waiting_db 1))) = [2, 3, 4] \<and>
   length (booking_allocations (snd (cancel_booking waiting_db 1))) = 2 \<and>
   cancel_booking waiting_db 99 = (CancelRejected BookingNotFound, waiting_db) \<and>
   fst (create_booking (booked_db 1) 7 bob_court_3) =
     Confirmed 2 (b_total_price bob_booking) (b_pricing_snapshot bob_booking) \<and>
   primary_resource (snd (create_booking (booked_db 1) 7 bob_court_3)) bob_booking =
     Some (IntRef 3) \<and>
   fst (create_booking (snd (create_booking (booked_db 1) 7 bob_court_3)) 8 carol_court_3) =
     Waitlisted 1 \<and>
   fst (cancel_booking
     (snd (create_booking (snd (create_booking (booked_db 1) 7 bob_court_3)) 8 carol_court_3))
     2) = Cancelled (Some 3) \<and>
   filter (\<lambda>b. b_status b = ''confirmed'')
     (bookings (snd (cancel_booking
       (snd (create_booking (snd (create_booking (booked_db 1) 7 bob_court_3)) 8 carol_court_3))
       2))) = [alice_booking] \<and>
   fst (cancel_booking
     (snd (create_booking (snd (create_booking (booked_db 1) 7 bob_court_3)) 8 carol_court_3))
     1) = Cancelled None"
proof -
  note thm1 = cancel_booking_advises [where bid = 1 and db = waiting_db and booking = alice_booking]
  note thm99 = cancel_booking_advises [where bid = 99 and db = waiting_db]
  have nf: "find (\<lambda>b. b_id b = 99) (bookings waiting_db) = None"
    by (simp add: waiting_db_def booked_db_def alice_booking_def)
  have wl: "waitlist_entries waiting_db =
     [\<lparr>w_id = 1, w_slot_hash = SlotHash mon_1900 mon_2000 (Some (IntRef 1)), w_user_id = 2,
            w_created_at = 20\<rparr>,
           \<lparr>w_id = 2, w_slot_hash = SlotHash mon_1900 mon_2000 (Some (IntRef 1)), w_user_id = 3,
            w_created_at = 10\<rparr>,
           \<lparr>w_id = 3, w_slot_hash = SlotHash mon_1000 mon_1900 (Some (IntRef 1)), w_user_id = 4,
            w_created_at = 5\<rparr>]"
    by (simp add: waiting_db_def)
  have pr: "primary_resource waiting_db alice_booking = Some (IntRef 1)"
    by (simp add: primary_resource_def waiting_db_def booked_db_def alice_booking_def
        resource_id_def)
  have b: "b_id alice_booking = 1" "b_id bob_booking = 2"
    "b_status bob_booking = ''confirmed''" "b_start_ts bob_booking = mon_1900"
    "b_end_ts bob_booking = mon_2000" "b_status alice_booking = ''confirmed''"
    "b_start_ts alice_booking = mon_1900" "b_end_ts alice_booking = mon_2000"
    by (simp_all add: alice_booking_def bob_booking_def)
  have out: "fst (cancel_booking waiting_db 1) = Cancelled (Some 3)"
    using thm1 waiting_db_find
    by (simp add: wl pr b mon_1000_def mon_1900_def mon_2000_def)
  have st: "map b_status (bookings (snd (cancel_booking waiting_db 1))) = [''cancelled'']"
    using waiting_db_find
    by (simp add: cancel_booking_def waiting_db_def booked_db_def alice_booking_def Let_def
        split: option.splits)
  have al: "length (booking_allocations (snd (cancel_booking waiting_db 1))) = 2"
    using thm1 waiting_db_find by (simp add: waiting_db_def booked_db_def)
  have w: "map w_user_id (waitlist_entries (snd (cancel_booking waiting_db 1))) = [2, 3, 4]"
    using thm1 waiting_db_find by (simp add: wl)
  let ?db2 = "snd (create_booking (snd (create_booking (booked_db 1) 7 bob_court_3)) 8
      carol_court_3)"
  note db2 = carol_court_3_waits(2-4)
  have pr2: "primary_resource ?db2 bob_booking = Some (IntRef 3)"
    "primary_resource ?db2 alice_booking = Some (IntRef 1)"
    by (simp_all add: primary_resource_def db2 b resource_id_def)
  have conf: "fst (create_booking (booked_db 1) 7 bob_court_3) =
     Confirmed 2 (b_total_price bob_booking) (b_pricing_snapshot bob_booking)"
    by (simp add: bob_court_3_booked(1) bob_booking_def)
  note thm2 = cancel_booking_advises [where bid = 2 and db = ?db2 and booking = bob_booking
      and ?db0.0 = "booked_db 1" and now = 7 and req = bob_court_3 and new_id = 2
      and t = "b_total_price bob_booking" and price = "b_pricing_snapshot bob_booking"]
  have found: "find (\<lambda>b. b_id b = 2) (bookings ?db2) = Some bob_booking"
    "find (\<lambda>b. b_id b = 1) (bookings ?db2) = Some alice_booking"
    by (simp_all add: db2 b)
  have out2: "fst (cancel_booking ?db2 2) = Cancelled (Some 3)"
    using thm2 found(1) by (simp add: db2 pr2 b)
  have kept: "filter (\<lambda>b. b_status b = ''confirmed'') (bookings (snd (cancel_booking ?db2 2))) =
      [alice_booking]"
    using thm2 found(1) by (simp add: db2 b)
  have fresh: "2 \<notin> set (map ba_booking_id (booking_allocations (booked_db 1)))"
    by (simp add: booked_db_def)
  have trip: "primary_resource (snd (create_booking (booked_db 1) 7 bob_court_3)) bob_booking =
      Some (IntRef 3)"
  proof -
    have r: "req_start_ts bob_court_3 = mon_1900" "req_end_ts bob_court_3 = mon_2000"
      "req_court_id bob_court_3 = 3"
      by (simp_all add: bob_court_3_def bob_request_def)
    have "\<exists>b. find (\<lambda>b. b_id b = 2)
          (bookings (snd (create_booking (booked_db 1) 7 bob_court_3))) = Some b \<and>
        b_status b = ''confirmed'' \<and>
        SlotHash (b_start_ts b) (b_end_ts b)
          (primary_resource (snd (create_booking (booked_db 1) 7 bob_court_3)) b) =
        SlotHash (req_start_ts bob_court_3) (req_end_ts bob_court_3)
          (Some (IntRef (req_court_id bob_court_3)))"
      using thm2 conf fresh by blast
    then show ?thesis
      by (simp add: bob_court_3_booked(2) b r)
  qed
  note thm3 = cancel_booking_advises [where bid = 1 and db = ?db2 and booking = alice_booking]
  have out3: "fst (cancel_booking ?db2 1) = Cancelled None"
    using thm3 found(2) by (simp add: db2 pr2 b)
  show ?thesis
    using out st al w thm99 nf conf trip carol_court_3_waits(1) out2 kept out3 by simp
qed

end
